theory Spec2Isabelle
  imports Main "HOL-Library.Word"
begin

text \<open>
  gandyn is a dynamic DNS updater for Gandi's LiveDNS: every tick it asks \<^verbatim>\<open>dig\<close> for the
  public address, reads the registered A record from the provider while it has none in
  memory, and writes the address when it differs. This theory embeds \<^verbatim>\<open>main.go\<close>:
  \<open>Resolve\<close>, \<open>req\<close>, \<open>Get\<close>, \<open>Set\<close> and the closure \<open>loop\<close> of \<open>main\<close>, with the
  outside world (the \<^verbatim>\<open>dig\<close> process, the HTTP exchange, the JSON codec) as an explicit
  parameter and every effect of a tick as a list of events.
\<close>

section \<open>Go values used by gandyn\<close>

text \<open>
  A Go \<^verbatim>\<open>string\<close> and a \<^verbatim>\<open>[]byte\<close> are sequences of bytes: both are \<^typ>\<open>string\<close>
  here (a list of 8-bit characters). Go's \<^verbatim>\<open>int\<close> is \<^typ>\<open>int\<close>: the only arithmetic on
  it is in the number scanners of package net, which stop at \<open>big\<close>, far below any
  machine bound, so no operation wraps.
\<close>

type_synonym byte = "8 word"

text \<open>
  An error value of a library (os/exec, net/http, encoding/json) is opaque to the program;
  the program's own errors are built by \<^verbatim>\<open>errors.New(msg)\<close> and by
  \<^verbatim>\<open>fmt.Errorf(format, code)\<close>.
\<close>

datatype lib_error = LibError string

datatype go_error = Lib lib_error | ErrorsNew string | Errorf string int

text \<open>A call either returns or panics (a run-time panic ends the process).\<close>

datatype 'a outcome = Return 'a | Panic string

text \<open>
  The slice expression \<^verbatim>\<open>s[lo:hi]\<close> panics unless \<open>0 \<le> lo \<le> hi \<le> len(s)\<close>. (For a
  byte slice the upper bound is its capacity, which is at least its length; the one slice
  of the program has \<open>hi = len(s) - 1\<close>, so the two bounds agree on it.)
\<close>

definition go_slice :: "string \<Rightarrow> int \<Rightarrow> int \<Rightarrow> string outcome" where
  "go_slice s lo hi =
     (if 0 \<le> lo \<and> lo \<le> hi \<and> hi \<le> int (length s)
      then Return (take (nat (hi - lo)) (drop (nat lo) s))
      else Panic ''slice bounds out of range'')"

section \<open>Package net of the Go standard library: ParseIP and To4\<close>

text \<open>
  \<^verbatim>\<open>Resolve\<close> validates the answer with \<^verbatim>\<open>net.ParseIP\<close> and \<^verbatim>\<open>IP.To4\<close>. They are not
  part of the repository; the definitions below follow \<^verbatim>\<open>net/ip.go\<close> and \<^verbatim>\<open>net/parse.go\<close>
  of the Go releases of the program's time (\<^verbatim>\<open>dtoi\<close>, \<^verbatim>\<open>xtoi\<close>, \<^verbatim>\<open>parseIPv4\<close>,
  \<^verbatim>\<open>parseIPv6\<close> without zone, \<^verbatim>\<open>ParseIP\<close>, \<^verbatim>\<open>IPv4\<close>, \<^verbatim>\<open>isZeros\<close>, \<^verbatim>\<open>To4\<close>).
  Later releases also reject a decimal octet written with a leading zero; no result below
  is about such an octet. A nil \<^verbatim>\<open>IP\<close> is \<open>None\<close>.
\<close>

definition IPv4len :: int where "IPv4len = 4"
definition IPv6len :: int where "IPv6len = 16"
definition big :: int where "big = 0xFFFFFF"

definition byte_of :: "char \<Rightarrow> int" where
  "byte_of c = of_char c"

definition in_range :: "char \<Rightarrow> char \<Rightarrow> char \<Rightarrow> bool" where
  "in_range lo c hi = (byte_of lo \<le> byte_of c \<and> byte_of c \<le> byte_of hi)"

text \<open>\<^verbatim>\<open>dtoi(s)\<close>: decimal to integer; returns number, characters consumed, success.\<close>

fun dtoi_loop :: "string \<Rightarrow> int \<Rightarrow> int \<Rightarrow> int \<times> int \<times> bool" where
  "dtoi_loop [] n i = (if i = 0 then (0, 0, False) else (n, i, True))"
| "dtoi_loop (c # cs) n i =
     (if in_range CHR ''0'' c CHR ''9'' then
        (let n' = n * 10 + (byte_of c - byte_of CHR ''0'')
         in if n' \<ge> big then (big, i, False) else dtoi_loop cs n' (i + 1))
      else if i = 0 then (0, 0, False) else (n, i, True))"

definition dtoi :: "string \<Rightarrow> int \<times> int \<times> bool" where
  "dtoi s = dtoi_loop s 0 0"

text \<open>\<^verbatim>\<open>xtoi(s)\<close>: hexadecimal to integer; returns number, characters consumed, success.\<close>

fun xtoi_loop :: "string \<Rightarrow> int \<Rightarrow> int \<Rightarrow> int \<times> int \<times> bool" where
  "xtoi_loop [] n i = (if i = 0 then (0, i, False) else (n, i, True))"
| "xtoi_loop (c # cs) n i =
     (if in_range CHR ''0'' c CHR ''9'' then
        (let n' = n * 16 + (byte_of c - byte_of CHR ''0'')
         in if n' \<ge> big then (0, i, False) else xtoi_loop cs n' (i + 1))
      else if in_range CHR ''a'' c CHR ''f'' then
        (let n' = n * 16 + (byte_of c - byte_of CHR ''a'') + 10
         in if n' \<ge> big then (0, i, False) else xtoi_loop cs n' (i + 1))
      else if in_range CHR ''A'' c CHR ''F'' then
        (let n' = n * 16 + (byte_of c - byte_of CHR ''A'') + 10
         in if n' \<ge> big then (0, i, False) else xtoi_loop cs n' (i + 1))
      else if i = 0 then (0, i, False) else (n, i, True))"

definition xtoi :: "string \<Rightarrow> int \<times> int \<times> bool" where
  "xtoi s = xtoi_loop s 0 0"

text \<open>\<^verbatim>\<open>IPv4(a, b, c, d)\<close>: the 16-byte form of an IPv4 address.\<close>

definition v4InV6Prefix :: "byte list" where
  "v4InV6Prefix = [0, 0, 0, 0, 0, 0, 0, 0, 0, 0, 0xff, 0xff]"

definition IPv4 :: "byte \<Rightarrow> byte \<Rightarrow> byte \<Rightarrow> byte \<Rightarrow> byte list" where
  "IPv4 a b c d = v4InV6Prefix @ [a, b, c, d]"

text \<open>
  \<^verbatim>\<open>parseIPv4(s)\<close>: the loop \<^verbatim>\<open>for i := 0; i < IPv4len; i++\<close> runs over the indices
  \<open>[0, 1, 2, 3]\<close>; it yields the four bytes and the rest of the string.
\<close>

fun parseIPv4_loop :: "nat list \<Rightarrow> string \<Rightarrow> byte list \<Rightarrow> (byte list \<times> string) option" where
  "parseIPv4_loop [] s p = Some (p, s)"
| "parseIPv4_loop (i # idx) s p =
     (if length s = 0 then None
      else if i > 0 \<and> s ! 0 \<noteq> CHR ''.'' then None
      else
        (let s1 = (if i > 0 then drop 1 s else s) in
         case dtoi s1 of (n, c, ok) \<Rightarrow>
           if ok = False \<or> n > 0xFF then None
           else parseIPv4_loop idx (drop (nat c) s1) (p[i := of_int n])))"

definition parseIPv4 :: "string \<Rightarrow> byte list option" where
  "parseIPv4 s =
     (case parseIPv4_loop [0, 1, 2, 3] s [0, 0, 0, 0] of
        None \<Rightarrow> None
      | Some (p, s') \<Rightarrow>
          if length s' \<noteq> 0 then None else Some (IPv4 (p ! 0) (p ! 1) (p ! 2) (p ! 3)))"

text \<open>
  \<^verbatim>\<open>parseIPv6(s)\<close>. The main loop \<^verbatim>\<open>for i < IPv6len\<close> carries the rest of the string, the
  write position \<open>i\<close>, the position of the ellipsis (\<open>-1\<close> when there is none) and the
  16 bytes; it ends with these four values (by \<^verbatim>\<open>break\<close> or because \<open>i\<close> reached
  \<open>IPv6len\<close>), or with \<open>None\<close> where the code returns nil.
\<close>

function parseIPv6_loop ::
  "string \<Rightarrow> int \<Rightarrow> int \<Rightarrow> byte list \<Rightarrow> (string \<times> int \<times> int \<times> byte list) option" where
  "parseIPv6_loop s i ellipsis ip =
     (if i < IPv6len then
        (case xtoi s of (n, c, ok) \<Rightarrow>
           if ok = False \<or> n > 0xFFFF then None
           else if c < int (length s) \<and> s ! nat c = CHR ''.'' then
             (if ellipsis < 0 \<and> i \<noteq> IPv6len - IPv4len then None
              else if i + IPv4len > IPv6len then None
              else
                (case parseIPv4 s of
                   None \<Rightarrow> None
                 | Some ip4 \<Rightarrow>
                     Some ([], i + IPv4len, ellipsis,
                       ip[nat i := ip4 ! 12, nat (i + 1) := ip4 ! 13,
                          nat (i + 2) := ip4 ! 14, nat (i + 3) := ip4 ! 15])))
           else
             (let ip1 = ip[nat i := of_int (n div 256), nat (i + 1) := of_int n];
                  i1 = i + 2;
                  s1 = drop (nat c) s
              in if length s1 = 0 then Some (s1, i1, ellipsis, ip1)
                 else if s1 ! 0 \<noteq> CHR '':'' \<or> length s1 = 1 then None
                 else
                   (let s2 = drop 1 s1
                    in if s2 ! 0 = CHR '':'' then
                         (if ellipsis \<ge> 0 then None
                          else
                            (let s3 = drop 1 s2
                             in if length s3 = 0 then Some (s3, i1, i1, ip1)
                                else parseIPv6_loop s3 i1 i1 ip1))
                       else parseIPv6_loop s2 i1 ellipsis ip1)))
      else Some (s, i, ellipsis, ip))"
  by pat_completeness auto
termination
  by (relation "measure (\<lambda>(s, i, ellipsis, ip). nat (IPv6len - i))") (auto simp: IPv6len_def)

text \<open>
  Expanding the ellipsis:
  \<^verbatim>\<open>for j := i - 1; j >= ellipsis; j-- { ip[j+n] = ip[j] }\<close> and
  \<^verbatim>\<open>for j := ellipsis + n - 1; j >= ellipsis; j-- { ip[j] = 0 }\<close>.
\<close>

function shift_loop :: "int \<Rightarrow> int \<Rightarrow> int \<Rightarrow> byte list \<Rightarrow> byte list" where
  "shift_loop j ellipsis n ip =
     (if j \<ge> ellipsis
      then shift_loop (j - 1) ellipsis n (ip[nat (j + n) := ip ! nat j])
      else ip)"
  by pat_completeness auto
termination
  by (relation "measure (\<lambda>(j, ellipsis, n, ip). nat (j - ellipsis + 1))") auto

function zero_loop :: "int \<Rightarrow> int \<Rightarrow> byte list \<Rightarrow> byte list" where
  "zero_loop j ellipsis ip =
     (if j \<ge> ellipsis
      then zero_loop (j - 1) ellipsis (ip[nat j := 0])
      else ip)"
  by pat_completeness auto
termination
  by (relation "measure (\<lambda>(j, ellipsis, ip). nat (j - ellipsis + 1))") auto

definition parseIPv6 :: "string \<Rightarrow> byte list option" where
  "parseIPv6 s =
     (let ip = replicate 16 0;
          lead = (length s \<ge> 2 \<and> s ! 0 = CHR '':'' \<and> s ! 1 = CHR '':'');
          ellipsis = (if lead then 0 else - 1);
          s0 = (if lead then drop 2 s else s)
      in if lead \<and> length s0 = 0 then Some ip
         else
           (case parseIPv6_loop s0 0 ellipsis ip of
              None \<Rightarrow> None
            | Some (s', i, ellipsis', ip') \<Rightarrow>
                if length s' \<noteq> 0 then None
                else if i < IPv6len then
                  (if ellipsis' < 0 then None
                   else
                     (let n = IPv6len - i
                      in Some (zero_loop (ellipsis' + n - 1) ellipsis'
                                 (shift_loop (i - 1) ellipsis' n ip'))))
                else if ellipsis' \<ge> 0 then None
                else Some ip'))"

text \<open>\<^verbatim>\<open>ParseIP(s)\<close>: the first \<^verbatim>\<open>'.'\<close> or \<^verbatim>\<open>':'\<close> of \<open>s\<close> decides the parser.\<close>

fun ParseIP_scan :: "string \<Rightarrow> string \<Rightarrow> byte list option" where
  "ParseIP_scan s [] = None"
| "ParseIP_scan s (c # cs) =
     (if c = CHR ''.'' then parseIPv4 s
      else if c = CHR '':'' then parseIPv6 s
      else ParseIP_scan s cs)"

definition ParseIP :: "string \<Rightarrow> byte list option" where
  "ParseIP s = ParseIP_scan s s"

fun isZeros :: "byte list \<Rightarrow> bool" where
  "isZeros [] = True"
| "isZeros (b # bs) = (if b \<noteq> 0 then False else isZeros bs)"

text \<open>\<^verbatim>\<open>ip.To4()\<close>: the 4-byte form, or nil when \<open>ip\<close> is not an IPv4 address.\<close>

definition To4 :: "byte list \<Rightarrow> byte list option" where
  "To4 ip =
     (if int (length ip) = IPv4len then Some ip
      else if int (length ip) = IPv6len \<and> isZeros (take 10 ip) \<and>
              ip ! 10 = 0xff \<and> ip ! 11 = 0xff
      then Some (take 4 (drop 12 ip))
      else None)"

section \<open>The program's data\<close>

record publicIPResolver =
  Hostname :: string
  Server :: string

text \<open>
  \<^verbatim>\<open>liveDNSRecord\<close>: \<open>Values\<close> is a slice, nil (\<open>None\<close>) when the field is absent. \<open>TTL\<close> is
  a \<^verbatim>\<open>uint\<close>; the program stores the constant 300 there and computes nothing with it.
\<close>

record liveDNSRecord =
  Kind :: string
  Name :: string
  TTL :: nat
  Values :: "string list option"

record liveDNSConfig =
  Key :: string
  Zone :: string
  Record :: string

definition baseURL :: string where
  "baseURL = ''https://dns.api.gandi.net/api/v5/zones''"

definition StatusCreated :: int where
  "StatusCreated = 201"

record http_request =
  req_method :: string
  req_url :: string
  req_header :: "(string \<times> string) list"
  req_body :: "string option"

record http_response =
  StatusCode :: int
  Body :: string

text \<open>
  The world outside the program, as one tick sees it: what running a command prints (or
  the error of running it), whether \<^verbatim>\<open>http.NewRequest\<close> refuses a method and URL (its
  error, or \<open>None\<close> when it builds the request), what \<^verbatim>\<open>http.DefaultClient.Do\<close> gives for a
  request that is sent (its error, or the response), and the JSON encoder and decoder for
  \<^verbatim>\<open>liveDNSRecord\<close>.
\<close>

record environment =
  exec_Output :: "string \<Rightarrow> string list \<Rightarrow> lib_error + string"
  http_NewRequest :: "string \<Rightarrow> string \<Rightarrow> lib_error option"
  http_Do :: "http_request \<Rightarrow> lib_error + http_response"
  json_Encode :: "liveDNSRecord \<Rightarrow> lib_error + string"
  json_Decode :: "string \<Rightarrow> lib_error + liveDNSRecord"

text \<open>What a tick does to the world, in order.\<close>

datatype event =
    ExecCommand string "string list"
  | HttpRequest http_request
  | LogPrintln string go_error
  | LogPrint string string
  | Sleep

section \<open>publicIPResolver.Resolve\<close>

text \<open>
  Returns Go's pair (address, error) and the command it ran. The slice
  \<^verbatim>\<open>output[0 : len(output)-1]\<close> goes through \<open>go_slice\<close>, so a slice out of bounds would
  show as \<open>Panic\<close>.
\<close>

definition Resolve ::
  "environment \<Rightarrow> publicIPResolver \<Rightarrow> ((string \<times> go_error option) \<times> event list) outcome" where
  "Resolve env p =
     (let args = [''+time=1'', ''+short'', Hostname p, ''@'' @ Server p];
          evs = [ExecCommand ''dig'' args]
      in case exec_Output env ''dig'' args of
           Inl err \<Rightarrow> Return (([], Some (Lib err)), evs)
         | Inr output \<Rightarrow>
             if length output = 0
             then Return (([], Some (ErrorsNew ''no ipv4 valid address'')), evs)
             else
               (case go_slice output 0 (int (length output) - 1) of
                  Panic msg \<Rightarrow> Panic msg
                | Return stringIP \<Rightarrow>
                    (case ParseIP stringIP of
                       None \<Rightarrow> Return (([], Some (ErrorsNew ''no ipv4 valid address'')), evs)
                     | Some ip \<Rightarrow>
                         if To4 ip = None
                         then Return (([], Some (ErrorsNew ''no ipv4 valid address'')), evs)
                         else Return ((stringIP, None), evs))))"

section \<open>liveDNSConfig: req, Get and Set\<close>

text \<open>
  \<open>req\<close>: when \<^verbatim>\<open>http.NewRequest\<close> fails, \<open>req\<close> returns its error and nothing is sent;
  otherwise the request gets its three headers and is sent by \<^verbatim>\<open>http.DefaultClient.Do\<close>.
  The event \<open>HttpRequest\<close> is the sending.
\<close>

definition req ::
  "environment \<Rightarrow> liveDNSConfig \<Rightarrow> string \<Rightarrow> string option \<Rightarrow>
     (lib_error + http_response) \<times> event list" where
  "req env l method body =
     (let url = baseURL @ ''/'' @ Zone l @ ''/records/'' @ Record l @ ''/A''
      in case http_NewRequest env method url of
           Some err \<Rightarrow> (Inl err, [])
         | None \<Rightarrow>
             (let request = \<lparr>req_method = method, req_url = url,
                             req_header = [(''X-Api-Key'', Key l),
                                           (''Content-Type'', ''application/json''),
                                           (''Accept'', ''application/json'')],
                             req_body = body\<rparr>
              in (http_Do env request, [HttpRequest request])))"

text \<open>\<open>Get\<close> gets the current value of the record.\<close>

definition Get ::
  "environment \<Rightarrow> liveDNSConfig \<Rightarrow> (string \<times> go_error option) \<times> event list" where
  "Get env l =
     (case req env l ''GET'' None of
        (Inl err, evs) \<Rightarrow> (([], Some (Lib err)), evs)
      | (Inr res, evs) \<Rightarrow>
          (case json_Decode env (Body res) of
             Inl err \<Rightarrow> (([], Some (Lib err)), evs)
           | Inr record \<Rightarrow>
               (case Values record of
                  None \<Rightarrow> (([], Some (ErrorsNew ''Invalid Record Response'')), evs)
                | Some [] \<Rightarrow> (([], Some (ErrorsNew ''Invalid Record Response'')), evs)
                | Some (v # vs) \<Rightarrow>
                    if v = [] then (([], Some (ErrorsNew ''Invalid Record Response'')), evs)
                    else ((v, None), evs))))"

text \<open>\<open>Set\<close> sets the value of the record.\<close>

definition Set :: "environment \<Rightarrow> liveDNSConfig \<Rightarrow> string \<Rightarrow> go_error option \<times> event list" where
  "Set env l ip =
     (case json_Encode env \<lparr>Kind = [], Name = [], TTL = 300, Values = Some [ip]\<rparr> of
        Inl err \<Rightarrow> (Some (Lib err), [])
      | Inr body \<Rightarrow>
          (case req env l ''PUT'' (Some body) of
             (Inl err, evs) \<Rightarrow> (Some (Lib err), evs)
           | (Inr res, evs) \<Rightarrow>
               if StatusCode res \<noteq> StatusCreated
               then (Some (Errorf ''Unexpected Response Status Code [%d]'' (StatusCode res)), evs)
               else (None, evs)))"

section \<open>The update loop of main\<close>

text \<open>
  The closure \<^verbatim>\<open>loop\<close> works on three variables of \<^verbatim>\<open>main\<close>: \<open>registeredIP\<close>,
  \<open>currentIP\<close> and \<open>err\<close>. Every assignment of the code is an update of the state.
\<close>

record loop_state =
  registeredIP :: string
  currentIP :: string
  err :: "go_error option"

text \<open>
  The innermost statement of the closure, \<^verbatim>\<open>if registeredIP != currentIP { ... }\<close>
  (lines 166 to 172), run in the state \<open>s2\<close> that the read has left.
\<close>

definition loop_update ::
  "environment \<Rightarrow> liveDNSConfig \<Rightarrow> loop_state \<Rightarrow> loop_state \<times> event list" where
  "loop_update env dyndns s2 =
     (if registeredIP s2 \<noteq> currentIP s2 then
        (case Set env dyndns (currentIP s2) of
           (e3, evs3) \<Rightarrow>
             (let s3 = s2\<lparr>err := e3\<rparr>
              in case err s3 of
                   Some e \<Rightarrow> (s3, evs3 @ [LogPrintln ''Error: updating DNS record:'' e])
                 | None \<Rightarrow>
                     (s3, evs3 @ [LogPrint ''Info: updated Gandi records with IP:''
                                    (currentIP s3)])))
      else (s2, []))"

text \<open>The closure (lines 151 to 174); \<open>loop_update\<close> sits inside the branch of the empty cache.\<close>

definition loop ::
  "environment \<Rightarrow> liveDNSConfig \<Rightarrow> publicIPResolver \<Rightarrow> loop_state \<Rightarrow>
     (loop_state \<times> event list) outcome" where
  "loop env dyndns publicip s =
     (case Resolve env publicip of
        Panic msg \<Rightarrow> Panic msg
      | Return ((ip, e1), evs1) \<Rightarrow>
          (let s1 = s\<lparr>currentIP := ip, err := e1\<rparr>
           in case err s1 of
                Some e \<Rightarrow>
                  Return (s1, evs1 @ [LogPrintln ''Error: failed to get pulic IP:'' e])
              | None \<Rightarrow>
                  if registeredIP s1 = [] then
                    (case Get env dyndns of
                       ((r, e2), evs2) \<Rightarrow>
                         (let s2 = s1\<lparr>registeredIP := r, err := e2\<rparr>
                          in case err s2 of
                               Some e \<Rightarrow>
                                 Return (s2, evs1 @ evs2 @
                                   [LogPrintln
                                      ''Error: failed to to get current dyndns record:'' e])
                             | None \<Rightarrow>
                                 (case loop_update env dyndns s2 of
                                    (s3, evs3) \<Rightarrow> Return (s3, evs1 @ evs2 @ evs3))))
                  else Return (s1, evs1)))"

text \<open>
  \<^verbatim>\<open>for { loop(); time.Sleep(refresh) }\<close>: the loop never ends; its runs of any finite
  number of ticks are given by the list of the worlds the ticks see.
\<close>

fun ticks ::
  "environment list \<Rightarrow> liveDNSConfig \<Rightarrow> publicIPResolver \<Rightarrow> loop_state \<Rightarrow>
     (loop_state \<times> event list) outcome" where
  "ticks [] dyndns publicip s = Return (s, [])"
| "ticks (env # envs) dyndns publicip s =
     (case loop env dyndns publicip s of
        Panic msg \<Rightarrow> Panic msg
      | Return (s1, evs1) \<Rightarrow>
          (case ticks envs dyndns publicip s1 of
             Panic msg \<Rightarrow> Panic msg
           | Return (s2, evs2) \<Rightarrow> Return (s2, evs1 @ [Sleep] @ evs2)))"

section \<open>Observing a run\<close>

text \<open>
  A provider read is a request with method GET sent through \<open>req\<close>, a provider write one
  with method PUT. \<open>read_calls\<close> and \<open>write_calls\<close> list them in order.
\<close>

fun read_calls :: "event list \<Rightarrow> http_request list" where
  "read_calls [] = []"
| "read_calls (HttpRequest rq # evs) =
     (if req_method rq = ''GET'' then rq # read_calls evs else read_calls evs)"
| "read_calls (ev # evs) = read_calls evs"

fun write_calls :: "event list \<Rightarrow> http_request list" where
  "write_calls [] = []"
| "write_calls (HttpRequest rq # evs) =
     (if req_method rq = ''PUT'' then rq # write_calls evs else write_calls evs)"
| "write_calls (ev # evs) = write_calls evs"

text \<open>The arguments \<open>Resolve\<close> gives to \<^verbatim>\<open>dig\<close>.\<close>

definition dig_args :: "publicIPResolver \<Rightarrow> string list" where
  "dig_args p = [''+time=1'', ''+short'', Hostname p, ''@'' @ Server p]"

text \<open>HTTP success in the usual sense: a status code from 200 to 299.\<close>

definition http_success :: "int \<Rightarrow> bool" where
  "http_success code = (200 \<le> code \<and> code < 300)"

subsection \<open>IPv4 literals\<close>

text \<open>
  The dotted-quad text of four octets, each in decimal without leading zeros:
  \<open>dotted_quad 192 168 0 1\<close> is \<open>192.168.0.1\<close>.
\<close>

definition digit_char :: "nat \<Rightarrow> char" where
  "digit_char k = char_of (48 + k)"

fun decimal :: "nat \<Rightarrow> string" where
  "decimal n = (if n < 10 then [digit_char n] else decimal (n div 10) @ [digit_char (n mod 10)])"

declare decimal.simps [simp del]

definition dotted_quad :: "nat \<Rightarrow> nat \<Rightarrow> nat \<Rightarrow> nat \<Rightarrow> string" where
  "dotted_quad a b c d = decimal a @ ''.'' @ decimal b @ ''.'' @ decimal c @ ''.'' @ decimal d"

subsection \<open>Concrete inputs\<close>

text \<open>
  The configuration of the examples, and a world in which \<^verbatim>\<open>dig\<close> gives \<open>out\<close>, every
  request is built and sent, the body of the provider's answer decodes to \<open>dec\<close>, a GET is
  answered with status \<open>get_code\<close> and a PUT with status \<open>put_code\<close>.
\<close>

definition cfg0 :: liveDNSConfig where
  "cfg0 = \<lparr>Key = ''secret'', Zone = ''zone-uuid'', Record = ''www''\<rparr>"

definition pr0 :: publicIPResolver where
  "pr0 = \<lparr>Hostname = ''myip.opendns.com'', Server = ''resolver1.opendns.com''\<rparr>"

definition show_record :: "liveDNSRecord \<Rightarrow> string" where
  "show_record r =
     ''ttl '' @ (if TTL r = 300 then ''300'' else ''other'') @ '' values'' @
     concat (map (\<lambda>v. '' '' @ v) (case Values r of None \<Rightarrow> [] | Some vs \<Rightarrow> vs))"

definition world ::
  "lib_error + string \<Rightarrow> lib_error + liveDNSRecord \<Rightarrow> int \<Rightarrow> int \<Rightarrow> environment" where
  "world out dec get_code put_code =
     \<lparr>exec_Output = (\<lambda>cmd args. out),
      http_NewRequest = (\<lambda>method url. None),
      http_Do = (\<lambda>rq. Inr \<lparr>StatusCode = (if req_method rq = ''PUT'' then put_code else get_code),
                            Body = ''body''\<rparr>),
      json_Encode = (\<lambda>r. Inr (show_record r)),
      json_Decode = (\<lambda>b. dec)\<rparr>"

definition a_record :: "string \<Rightarrow> liveDNSRecord" where
  "a_record v = \<lparr>Kind = ''A'', Name = ''www'', TTL = 10800, Values = Some [v]\<rparr>"

definition get_request :: http_request where
  "get_request =
     \<lparr>req_method = ''GET'',
      req_url = ''https://dns.api.gandi.net/api/v5/zones/zone-uuid/records/www/A'',
      req_header = [(''X-Api-Key'', ''secret''), (''Content-Type'', ''application/json''),
                    (''Accept'', ''application/json'')],
      req_body = None\<rparr>"

definition put_request :: "string \<Rightarrow> http_request" where
  "put_request body = get_request\<lparr>req_method := ''PUT'', req_body := Some body\<rparr>"

definition dig_event :: event where
  "dig_event =
     ExecCommand ''dig''
       [''+time=1'', ''+short'', ''myip.opendns.com'', ''@resolver1.opendns.com'']"

text \<open>
  The state at start-up (Go's zero values) and the state of a run that has read
  \<open>1.2.3.4\<close> from the provider; worlds for the scenarios of the examples.
\<close>

definition st_init :: loop_state where
  "st_init = \<lparr>registeredIP = [], currentIP = [], err = None\<rparr>"

definition st_cached :: loop_state where
  "st_cached = \<lparr>registeredIP = ''1.2.3.4'', currentIP = ''1.2.3.4'', err = None\<rparr>"

definition w_same :: environment where
  "w_same = world (Inr ''1.2.3.4\<newline>'') (Inr (a_record ''1.2.3.4'')) 200 201"

definition w_moved :: environment where
  "w_moved = world (Inr ''1.2.3.5\<newline>'') (Inr (a_record ''1.2.3.4'')) 200 201"

definition w_put_500 :: environment where
  "w_put_500 = world (Inr ''1.2.3.5\<newline>'') (Inr (a_record ''1.2.3.4'')) 200 500"

definition w_get_500 :: environment where
  "w_get_500 = world (Inr ''1.2.3.4\<newline>'') (Inr (a_record ''1.2.3.4'')) 500 201"

definition w_dig_down :: environment where
  "w_dig_down = world (Inl (LibError ''exit status 9'')) (Inr (a_record ''1.2.3.4'')) 200 201"

definition w_offline :: environment where
  "w_offline = w_same\<lparr>http_Do := (\<lambda>rq. Inl (LibError ''no route to host''))\<rparr>"

definition w_empty :: environment where
  "w_empty = world (Inr []) (Inr (a_record ''1.2.3.4'')) 200 201"

definition w_garbage :: environment where
  "w_garbage = world (Inr ''not-an-ip\<newline>'') (Inr (a_record ''1.2.3.4'')) 200 201"

definition w_ipv6 :: environment where
  "w_ipv6 = world (Inr ''2001:db8::1\<newline>'') (Inr (a_record ''1.2.3.4'')) 200 201"

definition w_mapped :: environment where
  "w_mapped = world (Inr ''::ffff:1.2.3.4\<newline>'') (Inr (a_record ''1.2.3.4'')) 200 201"

definition w_undecodable :: environment where
  "w_undecodable = world (Inr ''1.2.3.4\<newline>'') (Inl (LibError ''unexpected end of JSON input'')) 200 201"

definition w_no_values :: environment where
  "w_no_values =
     world (Inr ''1.2.3.4\<newline>'') (Inr \<lparr>Kind = [], Name = [], TTL = 0, Values = None\<rparr>) 404 201"

definition w_newline :: environment where
  "w_newline = world (Inr ''\<newline>'') (Inr (a_record ''1.2.3.4'')) 200 201"

definition w_unencodable :: environment where
  "w_unencodable = w_moved\<lparr>json_Encode := (\<lambda>r. Inl (LibError ''json: unsupported value''))\<rparr>"

text \<open>
  A record name that is no valid URL escape, and a world in which \<^verbatim>\<open>http.NewRequest\<close>
  refuses every URL but the one of \<open>cfg0\<close>.
\<close>

definition cfg_bad :: liveDNSConfig where
  "cfg_bad = \<lparr>Key = ''secret'', Zone = ''zone-uuid'', Record = ''%zz''\<rparr>"

definition w_strict :: environment where
  "w_strict =
     w_moved\<lparr>http_NewRequest :=
       (\<lambda>method url.
          if url = ''https://dns.api.gandi.net/api/v5/zones/zone-uuid/records/www/A''
          then None else Some (LibError ''invalid URL escape''))\<rparr>"

section \<open>Facts about the parts\<close>

lemma ParseIP_empty: "ParseIP [] = None"
  by (simp add: ParseIP_def)

lemma go_slice_strip: "s \<noteq> [] \<Longrightarrow> go_slice s 0 (int (length s) - 1) = Return (butlast s)"
  by (cases s) (simp_all add: go_slice_def butlast_conv_take)

lemma world_sel:
  "exec_Output (world out dec g p) cmd args = out"
  "json_Decode (world out dec g p) b = dec"
  "json_Encode (world out dec g p) r = Inr (show_record r)"
  "http_Do (world out dec g p) rq =
     Inr \<lparr>StatusCode = (if req_method rq = ''PUT'' then p else g), Body = ''body''\<rparr>"
  "http_NewRequest (world out dec g p) method url = None"
  by (simp_all add: world_def)

lemma read_calls_append: "read_calls (xs @ ys) = read_calls xs @ read_calls ys"
  by (induction xs rule: read_calls.induct) simp_all

lemma write_calls_append: "write_calls (xs @ ys) = write_calls xs @ write_calls ys"
  by (induction xs rule: write_calls.induct) simp_all

subsection \<open>Resolve\<close>

text \<open>\<open>Resolve\<close> always returns, and runs \<^verbatim>\<open>dig\<close> once.\<close>

lemma Resolve_returns:
  "\<exists>a e. Resolve env p = Return ((a, e), [ExecCommand ''dig'' (dig_args p)])"
  by (auto simp: Resolve_def dig_args_def Let_def go_slice_strip split: sum.splits option.splits)

text \<open>A successful \<open>Resolve\<close> returns the output without its last byte, and never \<open>''''\<close>.\<close>

lemma Resolve_ok:
  assumes "Resolve env p = Return ((a, None), evs)"
  shows "a \<noteq> [] \<and> (\<exists>c. exec_Output env ''dig'' (dig_args p) = Inr (a @ [c]))"
  using assms
  apply (auto simp: Resolve_def dig_args_def Let_def go_slice_strip ParseIP_empty
              split: sum.splits option.splits if_splits)
  apply (metis append_butlast_last_id)
  done

text \<open>A failed \<open>Resolve\<close> returns the empty string with its error.\<close>

lemma Resolve_failed:
  assumes "Resolve env p = Return ((a, Some e), evs)"
  shows "a = []"
  using assms
  by (auto simp: Resolve_def Let_def go_slice_strip split: sum.splits option.splits if_splits)

lemma Resolve_one_byte:
  assumes "exec_Output env ''dig'' (dig_args p) = Inr [c]"
  shows "Resolve env p =
           Return (([], Some (ErrorsNew ''no ipv4 valid address'')),
                   [ExecCommand ''dig'' (dig_args p)])"
  using assms by (simp add: Resolve_def dig_args_def Let_def go_slice_def ParseIP_empty)

lemma Resolve_transport:
  assumes "exec_Output env ''dig'' (dig_args p) = Inl e"
  shows "Resolve env p = Return (([], Some (Lib e)), [ExecCommand ''dig'' (dig_args p)])"
  using assms by (simp add: Resolve_def dig_args_def)

lemma Resolve_empty:
  assumes "exec_Output env ''dig'' (dig_args p) = Inr []"
  shows "Resolve env p =
           Return (([], Some (ErrorsNew ''no ipv4 valid address'')),
                   [ExecCommand ''dig'' (dig_args p)])"
  using assms by (simp add: Resolve_def dig_args_def)

lemma Resolve_invalid:
  assumes "exec_Output env ''dig'' (dig_args p) = Inr out" and "out \<noteq> []"
    and "ParseIP (butlast out) = None \<or>
         (\<exists>ip. ParseIP (butlast out) = Some ip \<and> To4 ip = None)"
  shows "Resolve env p =
           Return (([], Some (ErrorsNew ''no ipv4 valid address'')),
                   [ExecCommand ''dig'' (dig_args p)])"
  using assms by (auto simp: Resolve_def dig_args_def go_slice_strip)

subsection \<open>Get and Set\<close>

text \<open>\<open>Get\<close> sends at most one request, a GET; a successful \<open>Get\<close> has sent it.\<close>

lemma Get_events:
  "snd (Get env l) = [] \<or>
   (\<exists>rq. snd (Get env l) = [HttpRequest rq] \<and> req_method rq = ''GET'' \<and> req_body rq = None)"
  by (auto simp: Get_def req_def Let_def split: sum.splits option.splits list.splits)

lemma Get_ok_events:
  assumes "Get env l = ((v, None), evs)"
  shows "\<exists>rq. evs = [HttpRequest rq] \<and> req_method rq = ''GET''"
  using assms
  by (auto simp: Get_def req_def Let_def
           split: sum.splits option.splits list.splits if_splits)

lemma Get_calls: "write_calls (snd (Get env l)) = []"
  using Get_events [of env l] by auto

lemma Get_ok_nonempty: "Get env l = ((v, None), evs) \<Longrightarrow> v \<noteq> []"
  by (auto simp: Get_def req_def Let_def
           split: sum.splits option.splits list.splits if_splits)

lemma Get_failed: "Get env l = ((v, Some e), evs) \<Longrightarrow> v = []"
  by (auto simp: Get_def req_def Let_def
           split: sum.splits option.splits list.splits if_splits)

lemma Set_events:
  "snd (Set env l ip) = [] \<or>
   (\<exists>rq. snd (Set env l ip) = [HttpRequest rq] \<and> req_method rq = ''PUT'')"
  by (auto simp: Set_def req_def Let_def split: sum.splits option.splits)

lemma Set_unexpected_status:
  assumes "snd (Set env l ip) = [HttpRequest rq]" and "http_Do env rq = Inr res"
    and "StatusCode res \<noteq> StatusCreated"
  shows "fst (Set env l ip) =
           Some (Errorf ''Unexpected Response Status Code [%d]'' (StatusCode res))"
  using assms
  by (auto simp: Set_def req_def Let_def split: sum.splits option.splits if_splits)

lemma Set_ok_events:
  assumes "fst (Set env l ip) = None"
  shows "\<exists>rq res. snd (Set env l ip) = [HttpRequest rq] \<and> req_method rq = ''PUT'' \<and>
           http_Do env rq = Inr res \<and> StatusCode res = StatusCreated"
  using assms
  by (auto simp: Set_def req_def Let_def split: sum.splits option.splits if_splits)

subsection \<open>The write block\<close>

text \<open>
  A write that the provider answers with a status other than 201 leaves both addresses of
  the state as they were, sets \<open>err\<close> and logs the error.
\<close>

lemma loop_update_failed_write:
  assumes U: "loop_update env d s2 = (s3, evs)" and rq: "rq \<in> set (write_calls evs)"
    and res: "http_Do env rq = Inr res" "StatusCode res \<noteq> StatusCreated"
  shows "registeredIP s3 = registeredIP s2 \<and> currentIP s3 = currentIP s2 \<and>
         err s3 = Some (Errorf ''Unexpected Response Status Code [%d]'' (StatusCode res)) \<and>
         LogPrintln ''Error: updating DNS record:''
           (Errorf ''Unexpected Response Status Code [%d]'' (StatusCode res)) \<in> set evs"
proof (cases "registeredIP s2 = currentIP s2")
  case True
  with U rq show ?thesis
    by (simp add: loop_update_def)
next
  case False
  obtain e3 evs3 where S: "Set env d (currentIP s2) = (e3, evs3)"
    by (metis surj_pair)
  show ?thesis
  proof (cases e3)
    case None
    with S Set_ok_events [of env d "currentIP s2"]
    obtain rq2 res2 where "evs3 = [HttpRequest rq2]" "req_method rq2 = ''PUT''"
      "http_Do env rq2 = Inr res2" "StatusCode res2 = StatusCreated"
      by auto
    with U rq res False S None show ?thesis
      by (auto simp: loop_update_def write_calls_append)
  next
    case (Some e)
    from U False S Some have evs: "evs = evs3 @ [LogPrintln ''Error: updating DNS record:'' e]"
      and s3: "s3 = s2\<lparr>err := Some e\<rparr>"
      by (auto simp: loop_update_def)
    from rq evs have "rq \<in> set (write_calls evs3)"
      by (simp add: write_calls_append)
    with Set_events [of env d "currentIP s2"] S have "snd (Set env d (currentIP s2)) = [HttpRequest rq]"
      by (auto split: if_splits)
    with Set_unexpected_status [of env d "currentIP s2" rq res] res S Some
    have "e = Errorf ''Unexpected Response Status Code [%d]'' (StatusCode res)"
      by simp
    with evs s3 show ?thesis
      by simp
  qed
qed

subsection \<open>Dotted quads\<close>

lemma byte_of_digit: "k < 10 \<Longrightarrow> byte_of (digit_char k) = 48 + int k"
proof -
  assume k: "k < 10"
  have "byte_of (digit_char k) = int (of_char (char_of (48 + k)))"
    unfolding byte_of_def digit_char_def by (rule of_nat_of_char [symmetric])
  also have "\<dots> = int ((48 + k) mod 256)"
    by (simp only: of_char_of)
  also have "\<dots> = 48 + int k"
    using k by simp
  finally show ?thesis .
qed

lemma byte_of_zero: "byte_of CHR ''0'' = 48"
  by (simp add: byte_of_def)

lemma digit_in_range: "k < 10 \<Longrightarrow> in_range CHR ''0'' (digit_char k) CHR ''9''"
  by (simp add: in_range_def byte_of_digit) (simp add: byte_of_def)

lemma digit_not_sep: "k < 10 \<Longrightarrow> digit_char k \<noteq> CHR ''.'' \<and> digit_char k \<noteq> CHR '':''"
  using digit_in_range [of k] by (auto simp: in_range_def byte_of_def)

lemma decimal_nonempty: "decimal n \<noteq> []"
  by (subst decimal.simps) simp

lemma decimal_digits: "c \<in> set (decimal n) \<Longrightarrow> \<exists>k<10. c = digit_char k"
proof (induction n rule: decimal.induct)
  case (1 n)
  show ?case
  proof (cases "n < 10")
    case True
    with "1.prems" show ?thesis
      by (subst (asm) decimal.simps) auto
  next
    case False
    from "1.prems" have "c \<in> set (decimal (n div 10)) \<or> c = digit_char (n mod 10)"
      using False by (subst (asm) decimal.simps) auto
    then show ?thesis
      using "1.IH" [OF False] by (auto intro: exI [of _ "n mod 10"])
  qed
qed

lemma dtoi_loop_digit:
  assumes "k < 10" and "acc * 10 + int k < big"
  shows "dtoi_loop (digit_char k # rest) acc i = dtoi_loop rest (acc * 10 + int k) (i + 1)"
  using assms by (simp add: digit_in_range byte_of_digit byte_of_zero Let_def)

text \<open>
  The scanner reads a decimal numeral digit by digit; it never stops early while the
  number stays below \<open>big\<close>.
\<close>

lemma dtoi_loop_decimal:
  assumes "0 \<le> acc" and "acc * 10 ^ length (decimal n) + int n < big"
  shows "dtoi_loop (decimal n @ rest) acc i =
           dtoi_loop rest (acc * 10 ^ length (decimal n) + int n)
             (i + int (length (decimal n)))"
  using assms
proof (induction n arbitrary: rest i rule: decimal.induct)
  case (1 n)
  show ?case
  proof (cases "n < 10")
    case True
    then have d: "decimal n = [digit_char n]"
      by (simp add: decimal.simps)
    with True "1.prems" show ?thesis
      by (simp add: dtoi_loop_digit del: dtoi_loop.simps)
  next
    case False
    let ?k = "length (decimal (n div 10))"
    have d: "decimal n = decimal (n div 10) @ [digit_char (n mod 10)]"
      using False by (subst decimal.simps) simp
    have len: "length (decimal n) = Suc ?k"
      by (simp add: d)
    have "n = 10 * (n div 10) + n mod 10"
      by simp
    then have n: "int n = 10 * int (n div 10) + int (n mod 10)"
      by (metis of_nat_add of_nat_mult of_nat_numeral)
    have bound: "acc * 10 ^ ?k * 10 + (10 * int (n div 10) + int (n mod 10)) < big"
      using "1.prems"(2) len n by (simp add: mult.assoc)
    have "0 \<le> acc * 10 ^ ?k"
      using "1.prems"(1) by simp
    then have b1: "acc * 10 ^ ?k + int (n div 10) < big"
      using bound by linarith
    have b2: "(acc * 10 ^ ?k + int (n div 10)) * 10 + int (n mod 10) < big"
      using bound by (simp add: algebra_simps)
    have "dtoi_loop (decimal n @ rest) acc i =
            dtoi_loop (decimal (n div 10) @ (digit_char (n mod 10) # rest)) acc i"
      by (simp add: d)
    also have "\<dots> = dtoi_loop (digit_char (n mod 10) # rest)
                        (acc * 10 ^ ?k + int (n div 10)) (i + int ?k)"
      using "1.IH" [OF False "1.prems"(1) b1] by simp
    also have "\<dots> = dtoi_loop rest ((acc * 10 ^ ?k + int (n div 10)) * 10 + int (n mod 10))
                        (i + int ?k + 1)"
      using b2 by (simp add: dtoi_loop_digit del: dtoi_loop.simps)
    also have "(acc * 10 ^ ?k + int (n div 10)) * 10 + int (n mod 10) =
                 acc * 10 ^ length (decimal n) + int n"
      by (simp add: len n algebra_simps)
    also have "i + int ?k + 1 = i + int (length (decimal n))"
      by (simp add: len)
    finally show ?thesis .
  qed
qed

text \<open>What \<open>dtoi\<close> makes of a decimal octet followed by a dot, or by nothing.\<close>

lemma dtoi_decimal_dot:
  assumes "n < 256"
  shows "dtoi (decimal n @ CHR ''.'' # rest) = (int n, int (length (decimal n)), True)"
    and "dtoi (decimal n) = (int n, int (length (decimal n)), True)"
proof -
  have b: "0 * 10 ^ length (decimal n) + int n < big"
    using assms by (simp add: big_def)
  have nz: "int (length (decimal n)) \<noteq> 0"
    using decimal_nonempty [of n] by simp
  have dot: "\<not> in_range CHR ''0'' CHR ''.'' CHR ''9''"
    by (simp add: in_range_def byte_of_def)
  show "dtoi (decimal n @ CHR ''.'' # rest) = (int n, int (length (decimal n)), True)"
    using dtoi_loop_decimal [of 0 n "CHR ''.'' # rest" 0, OF _ b] nz dot
    by (simp add: dtoi_def)
  show "dtoi (decimal n) = (int n, int (length (decimal n)), True)"
    using dtoi_loop_decimal [of 0 n "[]" 0, OF _ b] nz
    by (simp add: dtoi_def)
qed

lemma parseIPv4_dotted_quad:
  assumes "a < 256" "b < 256" "c < 256" "d < 256"
  shows "parseIPv4 (dotted_quad a b c d) =
           Some (IPv4 (of_nat a) (of_nat b) (of_nat c) (of_nat d))"
proof -
  have le: "int a \<le> 255" "int b \<le> 255" "int c \<le> 255" "int d \<le> 255"
    using assms by simp_all
  have "parseIPv4_loop [0, 1, 2, 3] (dotted_quad a b c d) [0, 0, 0, 0] =
          Some ([of_nat a, of_nat b, of_nat c, of_nat d], [])"
    using le assms decimal_nonempty
    by (simp add: dotted_quad_def dtoi_decimal_dot)
  then show ?thesis
    by (simp add: parseIPv4_def)
qed

lemma ParseIP_scan_digits:
  assumes "\<forall>c \<in> set ds. c \<noteq> CHR ''.'' \<and> c \<noteq> CHR '':''"
  shows "ParseIP_scan s (ds @ CHR ''.'' # rest) = parseIPv4 s"
  using assms by (induction ds) simp_all

lemma ParseIP_dotted_quad:
  assumes "a < 256" "b < 256" "c < 256" "d < 256"
  shows "ParseIP (dotted_quad a b c d) =
           Some (IPv4 (of_nat a) (of_nat b) (of_nat c) (of_nat d))"
proof -
  have "\<forall>ch \<in> set (decimal a). ch \<noteq> CHR ''.'' \<and> ch \<noteq> CHR '':''"
  proof
    fix ch
    assume "ch \<in> set (decimal a)"
    then obtain k where "k < 10" "ch = digit_char k"
      using decimal_digits by blast
    then show "ch \<noteq> CHR ''.'' \<and> ch \<noteq> CHR '':''"
      using digit_not_sep by simp
  qed
  then have "ParseIP_scan (dotted_quad a b c d) (dotted_quad a b c d) =
               parseIPv4 (dotted_quad a b c d)"
    using ParseIP_scan_digits [of "decimal a" "dotted_quad a b c d"]
    by (simp add: dotted_quad_def)
  then show ?thesis
    using assms by (simp add: ParseIP_def parseIPv4_dotted_quad)
qed

lemma To4_IPv4: "To4 (IPv4 a b c d) = Some [a, b, c, d]"
  by (simp add: To4_def IPv4_def v4InV6Prefix_def IPv4len_def IPv6len_def)

lemma go_slice_snoc: "go_slice (s @ [x]) 0 (int (length s)) = Return s"
  by (simp add: go_slice_def)

text \<open>
  Every dotted quad of four octets, followed by one more byte (the newline of \<^verbatim>\<open>dig\<close>),
  is accepted by \<open>Resolve\<close> and returned as it is.
\<close>

lemma Resolve_accepts_dotted_quad:
  assumes "a < 256" "b < 256" "c < 256" "d < 256"
    and "exec_Output env ''dig'' (dig_args p) = Inr (dotted_quad a b c d @ [x])"
  shows "Resolve env p =
           Return ((dotted_quad a b c d, None), [ExecCommand ''dig'' (dig_args p)])"
  using assms
  by (simp add: Resolve_def dig_args_def go_slice_snoc ParseIP_dotted_quad To4_IPv4)

subsection \<open>One tick\<close>

lemma loop_resolve_failed:
  assumes "Resolve env p = Return ((a, Some e), evs1)"
  shows "loop env d p s =
           Return (s\<lparr>currentIP := a, err := Some e\<rparr>,
                   evs1 @ [LogPrintln ''Error: failed to get pulic IP:'' e])"
  using assms by (simp add: loop_def)

lemma loop_cached:
  assumes "Resolve env p = Return ((a, None), evs1)" and "registeredIP s \<noteq> []"
  shows "loop env d p s = Return (s\<lparr>currentIP := a, err := None\<rparr>, evs1)"
  using assms by (simp add: loop_def)

lemma loop_get_failed:
  assumes "Resolve env p = Return ((a, None), evs1)" and "registeredIP s = []"
    and "Get env d = ((r, Some e), evs2)"
  shows "loop env d p s =
           Return (s\<lparr>currentIP := a, registeredIP := r, err := Some e\<rparr>,
                   evs1 @ evs2 @
                   [LogPrintln ''Error: failed to to get current dyndns record:'' e])"
  using assms by (simp add: loop_def)

lemma loop_get_ok:
  assumes "Resolve env p = Return ((a, None), evs1)" and "registeredIP s = []"
    and "Get env d = ((r, None), evs2)"
    and "loop_update env d (s\<lparr>currentIP := a, registeredIP := r, err := None\<rparr>) = (s3, evs3)"
  shows "loop env d p s = Return (s3, evs1 @ evs2 @ evs3)"
  using assms by (simp add: loop_def)

lemma loop_same:
  assumes "Resolve env p = Return ((a, None), evs1)" and "registeredIP s = []"
    and "Get env d = ((a, None), evs2)"
  shows "loop env d p s =
           Return (s\<lparr>currentIP := a, registeredIP := a, err := None\<rparr>, evs1 @ evs2)"
  using assms by (simp add: loop_def loop_update_def)

lemma loop_set_failed:
  assumes "Resolve env p = Return ((a, None), evs1)" and "registeredIP s = []"
    and "Get env d = ((r, None), evs2)" and "r \<noteq> a" and "Set env d a = (Some e, evs3)"
  shows "loop env d p s =
           Return (s\<lparr>currentIP := a, registeredIP := r, err := Some e\<rparr>,
                   evs1 @ evs2 @ evs3 @ [LogPrintln ''Error: updating DNS record:'' e])"
  using assms by (simp add: loop_def loop_update_def)

lemma loop_set_ok:
  assumes "Resolve env p = Return ((a, None), evs1)" and "registeredIP s = []"
    and "Get env d = ((r, None), evs2)" and "r \<noteq> a" and "Set env d a = (None, evs3)"
  shows "loop env d p s =
           Return (s\<lparr>currentIP := a, registeredIP := r, err := None\<rparr>,
                   evs1 @ evs2 @ evs3 @ [LogPrint ''Info: updated Gandi records with IP:'' a])"
  using assms by (simp add: loop_def loop_update_def)

text \<open>The six ways through one tick.\<close>

lemma loop_cases [case_names resolve_failed cached get_failed same set_failed set_ok]:
  obtains
    (resolve_failed) e where
      "Resolve env p = Return (([], Some e), [ExecCommand ''dig'' (dig_args p)])"
      "loop env d p s =
         Return (s\<lparr>currentIP := [], err := Some e\<rparr>,
                 [ExecCommand ''dig'' (dig_args p),
                  LogPrintln ''Error: failed to get pulic IP:'' e])"
  | (cached) a where
      "Resolve env p = Return ((a, None), [ExecCommand ''dig'' (dig_args p)])"
      "a \<noteq> []" "registeredIP s \<noteq> []"
      "loop env d p s =
         Return (s\<lparr>currentIP := a, err := None\<rparr>, [ExecCommand ''dig'' (dig_args p)])"
  | (get_failed) a e evs2 where
      "Resolve env p = Return ((a, None), [ExecCommand ''dig'' (dig_args p)])"
      "a \<noteq> []" "registeredIP s = []"
      "Get env d = (([], Some e), evs2)" "write_calls evs2 = []"
      "loop env d p s =
         Return (s\<lparr>currentIP := a, registeredIP := [], err := Some e\<rparr>,
                 [ExecCommand ''dig'' (dig_args p)] @ evs2 @
                 [LogPrintln ''Error: failed to to get current dyndns record:'' e])"
  | (same) a rq where
      "Resolve env p = Return ((a, None), [ExecCommand ''dig'' (dig_args p)])"
      "a \<noteq> []" "registeredIP s = []"
      "Get env d = ((a, None), [HttpRequest rq])" "req_method rq = ''GET''"
      "loop env d p s =
         Return (s\<lparr>currentIP := a, registeredIP := a, err := None\<rparr>,
                 [ExecCommand ''dig'' (dig_args p), HttpRequest rq])"
  | (set_failed) a r rq e evs3 where
      "Resolve env p = Return ((a, None), [ExecCommand ''dig'' (dig_args p)])"
      "a \<noteq> []" "registeredIP s = []"
      "Get env d = ((r, None), [HttpRequest rq])" "req_method rq = ''GET''"
      "r \<noteq> []" "r \<noteq> a" "Set env d a = (Some e, evs3)"
      "loop env d p s =
         Return (s\<lparr>currentIP := a, registeredIP := r, err := Some e\<rparr>,
                 [ExecCommand ''dig'' (dig_args p), HttpRequest rq] @ evs3 @
                 [LogPrintln ''Error: updating DNS record:'' e])"
  | (set_ok) a r rq evs3 where
      "Resolve env p = Return ((a, None), [ExecCommand ''dig'' (dig_args p)])"
      "a \<noteq> []" "registeredIP s = []"
      "Get env d = ((r, None), [HttpRequest rq])" "req_method rq = ''GET''"
      "r \<noteq> []" "r \<noteq> a" "Set env d a = (None, evs3)"
      "loop env d p s =
         Return (s\<lparr>currentIP := a, registeredIP := r, err := None\<rparr>,
                 [ExecCommand ''dig'' (dig_args p), HttpRequest rq] @ evs3 @
                 [LogPrint ''Info: updated Gandi records with IP:'' a])"
proof -
  obtain a e where R: "Resolve env p = Return ((a, e), [ExecCommand ''dig'' (dig_args p)])"
    using Resolve_returns [of env p] by blast
  show thesis
  proof (cases e)
    case (Some x)
    with R have "a = []"
      using Resolve_failed by blast
    with R Some show thesis
      using loop_resolve_failed [of env p a x _ d s] resolve_failed by simp
  next
    case None
    note e = None
    have a: "a \<noteq> []"
      using R e Resolve_ok [of env p a] by simp
    show thesis
    proof (cases "registeredIP s = []")
      case False
      then show thesis
        using R e a loop_cached [of env p a _ s d] cached by simp
    next
      case True
      obtain r e2 evs2 where G: "Get env d = ((r, e2), evs2)"
        by (metis surj_pair)
      have W: "write_calls evs2 = []"
        using Get_calls [of env d] G by simp
      show thesis
      proof (cases e2)
        case (Some x)
        with G have "r = []"
          using Get_failed by blast
        with Some show thesis
          using R e a True G W loop_get_failed [of env p a _ s d r x evs2] get_failed by simp
      next
        case None
        note e2 = None
        have r: "r \<noteq> []"
          using G e2 Get_ok_nonempty by blast
        obtain rq where evs2: "evs2 = [HttpRequest rq]" and rq: "req_method rq = ''GET''"
          using G e2 Get_ok_events by blast
        note G = G [unfolded evs2]
        show thesis
        proof (cases "r = a")
          case True
          then show thesis
            using R e a \<open>registeredIP s = []\<close> G rq e2 loop_same [of env p a _ s d] same
            by simp
        next
          case False
          obtain e3 evs3 where S: "Set env d a = (e3, evs3)"
            by (metis surj_pair)
          show thesis
          proof (cases e3)
            case None
            then show thesis
              using R e a \<open>registeredIP s = []\<close> G rq e2 r False S
                loop_set_ok [of env p a _ s d r _ evs3] set_ok
              by simp
          next
            case (Some x)
            then show thesis
              using R e a \<open>registeredIP s = []\<close> G rq e2 r False S
                loop_set_failed [of env p a _ s d r _ x evs3] set_failed
              by simp
          qed
        qed
      qed
    qed
  qed
qed

lemma loop_returns: "\<exists>s' evs. loop env d p s = Return (s', evs)"
  by (cases rule: loop_cases [of env p d s]) simp_all

text \<open>With an address in the cache, a tick sends nothing to the provider.\<close>

lemma loop_cached_frame:
  assumes "registeredIP s \<noteq> []"
  shows "\<exists>s' evs. loop env d p s = Return (s', evs) \<and> registeredIP s' = registeredIP s \<and>
           read_calls evs = [] \<and> write_calls evs = []"
  using assms by (cases rule: loop_cases [of env p d s]) auto

subsection \<open>Many ticks\<close>

lemma ticks_returns: "\<exists>s' evs. ticks envs d p s = Return (s', evs)"
proof (induction envs arbitrary: s)
  case Nil
  then show ?case by simp
next
  case (Cons env envs)
  obtain s1 evs1 where "loop env d p s = Return (s1, evs1)"
    using loop_returns by blast
  moreover obtain s2 evs2 where "ticks envs d p s1 = Return (s2, evs2)"
    using Cons.IH by blast
  ultimately show ?case by simp
qed

lemma ticks_cached_frame:
  assumes "registeredIP s \<noteq> []"
  shows "\<exists>s' evs. ticks envs d p s = Return (s', evs) \<and> registeredIP s' = registeredIP s \<and>
           read_calls evs = [] \<and> write_calls evs = []"
  using assms
proof (induction envs arbitrary: s)
  case Nil
  then show ?case by simp
next
  case (Cons env envs)
  from loop_cached_frame [OF Cons.prems, of env d p]
  obtain s1 evs1 where 1: "loop env d p s = Return (s1, evs1)"
    "registeredIP s1 = registeredIP s" "read_calls evs1 = []" "write_calls evs1 = []"
    by blast
  with Cons.prems have "registeredIP s1 \<noteq> []"
    by simp
  from Cons.IH [OF this]
  obtain s2 evs2 where 2: "ticks envs d p s1 = Return (s2, evs2)"
    "registeredIP s2 = registeredIP s1" "read_calls evs2 = []" "write_calls evs2 = []"
    by blast
  from 1 2 show ?case
    by (simp add: read_calls_append write_calls_append)
qed

subsection \<open>The scenarios, evaluated\<close>

lemma eval_Resolve_worlds:
  "Resolve w_same pr0 = Return ((''1.2.3.4'', None), [dig_event])"
  "Resolve w_dig_down pr0 =
     Return (([], Some (Lib (LibError ''exit status 9''))), [dig_event])"
  by code_simp+

lemma eval_dig_outputs:
  "exec_Output w_same ''dig'' (dig_args pr0) = Inr ''1.2.3.4\<newline>''"
  "exec_Output w_dig_down ''dig'' (dig_args pr0) = Inl (LibError ''exit status 9'')"
  "exec_Output w_empty ''dig'' (dig_args pr0) = Inr []"
  "exec_Output w_newline ''dig'' (dig_args pr0) = Inr ''\<newline>''"
  "exec_Output w_garbage ''dig'' (dig_args pr0) = Inr ''not-an-ip\<newline>''"
  "exec_Output w_ipv6 ''dig'' (dig_args pr0) = Inr ''2001:db8::1\<newline>''"
  by (simp_all add: w_same_def w_dig_down_def w_empty_def w_newline_def w_garbage_def
        w_ipv6_def world_sel)

lemma eval_ParseIP_garbage: "ParseIP (butlast ''not-an-ip\<newline>'') = None"
  by code_simp

lemma eval_ParseIP_ipv6:
  "ParseIP (butlast ''2001:db8::1\<newline>'') =
     Some [0x20, 0x01, 0x0d, 0xb8, 0, 0, 0, 0, 0, 0, 0, 0, 0, 0, 0, 1]"
  "To4 [0x20, 0x01, 0x0d, 0xb8, 0, 0, 0, 0, 0, 0, 0, 0, 0, 0, 0, 1] = None"
  by code_simp+

lemma eval_Get_worlds:
  "Get w_same cfg0 = ((''1.2.3.4'', None), [HttpRequest get_request])"
  "Get w_put_500 cfg0 = ((''1.2.3.4'', None), [HttpRequest get_request])"
  "Get w_offline cfg0 =
     (([], Some (Lib (LibError ''no route to host''))), [HttpRequest get_request])"
  "Get w_undecodable cfg0 =
     (([], Some (Lib (LibError ''unexpected end of JSON input''))), [HttpRequest get_request])"
  "Get w_no_values cfg0 =
     (([], Some (ErrorsNew ''Invalid Record Response'')), [HttpRequest get_request])"
  "Get w_get_500 cfg0 = ((''1.2.3.4'', None), [HttpRequest get_request])"
  by code_simp+

lemma eval_http_worlds:
  "http_Do w_offline get_request = Inl (LibError ''no route to host'')"
  "http_Do w_undecodable get_request = Inr \<lparr>StatusCode = 200, Body = ''body''\<rparr>"
  "json_Decode w_undecodable ''body'' = Inl (LibError ''unexpected end of JSON input'')"
  "http_Do w_no_values get_request = Inr \<lparr>StatusCode = 404, Body = ''body''\<rparr>"
  "json_Decode w_no_values ''body'' = Inr \<lparr>Kind = [], Name = [], TTL = 0, Values = None\<rparr>"
  "http_Do w_get_500 get_request = Inr \<lparr>StatusCode = 500, Body = ''body''\<rparr>"
  "json_Decode w_get_500 ''body'' = Inr (a_record ''1.2.3.4'')"
  "http_Do w_put_500 (put_request ''ttl 300 values 1.2.3.5'') =
     Inr \<lparr>StatusCode = 500, Body = ''body''\<rparr>"
  by code_simp+

lemma eval_req_worlds:
  "fst (req w_offline cfg0 ''GET'' None) = Inl (LibError ''no route to host'')"
  "fst (req w_strict cfg_bad ''GET'' None) = Inl (LibError ''invalid URL escape'')"
  "fst (req w_undecodable cfg0 ''GET'' None) = Inr \<lparr>StatusCode = 200, Body = ''body''\<rparr>"
  "fst (req w_no_values cfg0 ''GET'' None) = Inr \<lparr>StatusCode = 404, Body = ''body''\<rparr>"
  "fst (req w_get_500 cfg0 ''GET'' None) = Inr \<lparr>StatusCode = 500, Body = ''body''\<rparr>"
  by code_simp+

lemma eval_strict:
  "Get w_strict cfg_bad = (([], Some (Lib (LibError ''invalid URL escape''))), [])"
  "Set w_strict cfg_bad ''1.2.3.5'' = (Some (Lib (LibError ''invalid URL escape'')), [])"
  "req w_strict cfg_bad ''PUT'' (Some ''ttl 300 values 1.2.3.5'') =
     (Inl (LibError ''invalid URL escape''), [])"
  "json_Encode w_strict \<lparr>Kind = [], Name = [], TTL = 300, Values = Some [''1.2.3.5'']\<rparr> =
     Inr ''ttl 300 values 1.2.3.5''"
  by code_simp+

lemma eval_Set_moved:
  "Set w_moved cfg0 ''1.2.3.5'' =
     (None, [HttpRequest (put_request ''ttl 300 values 1.2.3.5'')])"
  "req w_moved cfg0 ''PUT'' (Some ''ttl 300 values 1.2.3.5'') =
     (Inr \<lparr>StatusCode = 201, Body = ''body''\<rparr>,
      [HttpRequest (put_request ''ttl 300 values 1.2.3.5'')])"
  "http_NewRequest w_moved ''PUT''
     (baseURL @ ''/'' @ Zone cfg0 @ ''/records/'' @ Record cfg0 @ ''/A'') = None"
  "json_Encode w_moved \<lparr>Kind = [], Name = [], TTL = 300, Values = Some [''1.2.3.5'']\<rparr> =
     Inr ''ttl 300 values 1.2.3.5''"
  "json_Encode w_unencodable \<lparr>Kind = [], Name = [], TTL = 300, Values = Some [''1.2.3.5'']\<rparr> =
     Inl (LibError ''json: unsupported value'')"
  by code_simp+

lemma eval_Set_put_500:
  "Set w_put_500 cfg0 ''1.2.3.5'' =
     (Some (Errorf ''Unexpected Response Status Code [%d]'' 500),
      [HttpRequest (put_request ''ttl 300 values 1.2.3.5'')])"
  by code_simp

lemma eval_loop_update_put_500:
  "loop_update w_put_500 cfg0 \<lparr>registeredIP = ''1.2.3.4'', currentIP = ''1.2.3.5'', err = None\<rparr> =
     (\<lparr>registeredIP = ''1.2.3.4'', currentIP = ''1.2.3.5'',
        err = Some (Errorf ''Unexpected Response Status Code [%d]'' 500)\<rparr>,
      [HttpRequest (put_request ''ttl 300 values 1.2.3.5''),
       LogPrintln ''Error: updating DNS record:''
         (Errorf ''Unexpected Response Status Code [%d]'' 500)])"
  by code_simp

lemma eval_loop_worlds:
  "loop w_same cfg0 pr0 st_init = Return (st_cached, [dig_event, HttpRequest get_request])"
  "loop w_same cfg0 pr0 st_cached = Return (st_cached, [dig_event])"
  "loop w_put_500 cfg0 pr0 st_init =
     Return (\<lparr>registeredIP = ''1.2.3.4'', currentIP = ''1.2.3.5'',
              err = Some (Errorf ''Unexpected Response Status Code [%d]'' 500)\<rparr>,
             [dig_event, HttpRequest get_request,
              HttpRequest (put_request ''ttl 300 values 1.2.3.5''),
              LogPrintln ''Error: updating DNS record:''
                (Errorf ''Unexpected Response Status Code [%d]'' 500)])"
  by code_simp+

section \<open>The claims\<close>

text \<open>
  C1 (the code does otherwise). The claim: in a tick that holds a cached registered address
  \<open>A\<close> and resolves a different address \<open>B\<close>, the loop writes \<open>B\<close> once and, the write
  succeeding, caches \<open>B\<close>. The code compares and writes only inside the branch of the
  empty cache, and never assigns the written address to \<open>registeredIP\<close>. With
  \<open>1.2.3.4\<close> cached and \<open>1.2.3.5\<close> resolved, the tick runs \<^verbatim>\<open>dig\<close> and nothing else. From
  the start-up state, with the provider holding \<open>1.2.3.4\<close>, the tick writes \<open>1.2.3.5\<close>,
  the write succeeds, and the cache holds \<open>1.2.3.4\<close>. In the spec's scenario of two ticks
  (\<open>1.2.3.4\<close> resolved, then \<open>1.2.3.5\<close>) no write is ever sent. (In general, by
  \<open>loop_cached_frame\<close>, a tick that starts with an address in the cache sends nothing to
  the provider.)
\<close>

theorem cached_address_never_rewritten:
  "loop w_moved cfg0 pr0 st_cached =
     Return (\<lparr>registeredIP = ''1.2.3.4'', currentIP = ''1.2.3.5'', err = None\<rparr>, [dig_event]) \<and>
   loop w_moved cfg0 pr0 st_init =
     Return (\<lparr>registeredIP = ''1.2.3.4'', currentIP = ''1.2.3.5'', err = None\<rparr>,
             [dig_event, HttpRequest get_request,
              HttpRequest (put_request ''ttl 300 values 1.2.3.5''),
              LogPrint ''Info: updated Gandi records with IP:'' ''1.2.3.5'']) \<and>
   ticks [w_same, w_moved] cfg0 pr0 st_init =
     Return (\<lparr>registeredIP = ''1.2.3.4'', currentIP = ''1.2.3.5'', err = None\<rparr>,
             [dig_event, HttpRequest get_request, Sleep, dig_event, Sleep])"
  by code_simp

text \<open>
  C2. The provider read is invoked only while the cached registered address is empty, and
  a populated cache stays as it is. In one tick: a read in the tick's events means the
  cache was empty at its start, and a read that succeeds with \<open>v\<close> leaves \<open>v\<close>, which is
  not empty, in the cache. Over any number of later ticks, in any worlds: from a state with
  a non-empty cache, the run returns, sends no read, and ends with the same cached address.
\<close>

theorem Get_only_while_cache_empty:
  "(\<exists>s' evs. loop env dyndns publicip s = Return (s', evs) \<and>
      (read_calls evs \<noteq> [] \<longrightarrow> registeredIP s = []) \<and>
      (\<forall>v evs2. read_calls evs \<noteq> [] \<and> Get env dyndns = ((v, None), evs2) \<longrightarrow>
         registeredIP s' = v \<and> v \<noteq> [])) \<and>
   (\<exists>s' evs. ticks envs dyndns publicip s = Return (s', evs) \<and>
      (registeredIP s \<noteq> [] \<longrightarrow> registeredIP s' = registeredIP s \<and> read_calls evs = []))"
proof -
  have A: "\<exists>s' evs. loop env dyndns publicip s = Return (s', evs) \<and>
      (read_calls evs \<noteq> [] \<longrightarrow> registeredIP s = []) \<and>
      (\<forall>v evs2. read_calls evs \<noteq> [] \<and> Get env dyndns = ((v, None), evs2) \<longrightarrow>
         registeredIP s' = v \<and> v \<noteq> [])"
  proof (cases rule: loop_cases [of env publicip dyndns s])
    case (set_failed a r rq e evs3)
    then show ?thesis by auto
  next
    case (set_ok a r rq evs3)
    then show ?thesis by auto
  qed auto
  have B: "\<exists>s' evs. ticks envs dyndns publicip s = Return (s', evs) \<and>
      (registeredIP s \<noteq> [] \<longrightarrow> registeredIP s' = registeredIP s \<and> read_calls evs = [])"
  proof (cases "registeredIP s = []")
    case True
    then show ?thesis
      using ticks_returns [of envs dyndns publicip s] by auto
  next
    case False
    then show ?thesis
      using ticks_cached_frame [of s envs dyndns publicip] by auto
  qed
  from A B show ?thesis by blast
qed

theorem Get_only_while_cache_empty_witness:
  "registeredIP st_init = [] \<and>
   loop w_same cfg0 pr0 st_init = Return (st_cached, [dig_event, HttpRequest get_request]) \<and>
   read_calls [dig_event, HttpRequest get_request] \<noteq> [] \<and>
   Get w_same cfg0 = ((''1.2.3.4'', None), [HttpRequest get_request]) \<and>
   registeredIP st_cached = ''1.2.3.4'' \<and>
   (\<exists>s' evs. ticks [w_moved, w_dig_down, w_same] cfg0 pr0 st_cached = Return (s', evs) \<and>
      registeredIP s' = ''1.2.3.4'' \<and> read_calls evs = [])"
  using Get_only_while_cache_empty [of w_same cfg0 pr0 st_init "[]"]
    Get_only_while_cache_empty [of w_same cfg0 pr0 st_cached "[w_moved, w_dig_down, w_same]"]
    eval_loop_worlds(1) eval_Get_worlds(1)
  by (simp add: st_init_def st_cached_def dig_event_def get_request_def)

text \<open>
  C3 (as stated, refuted). The claim says a tick whose resolution fails mutates neither
  \<open>registeredIP\<close> nor \<open>currentIP\<close>. The assignment \<^verbatim>\<open>currentIP, err = publicip.Resolve()\<close>
  stores the empty string that \<open>Resolve\<close> returns with its error: after one good tick has
  left \<open>1.2.3.4\<close> in \<open>currentIP\<close>, a tick in which \<^verbatim>\<open>dig\<close> fails leaves it empty.
\<close>

theorem resolve_failure_clears_currentIP_counterexample:
  "ticks [w_same] cfg0 pr0 st_init =
     Return (st_cached, [dig_event, HttpRequest get_request, Sleep]) \<and>
   currentIP st_cached = ''1.2.3.4'' \<and>
   Resolve w_dig_down pr0 =
     Return (([], Some (Lib (LibError ''exit status 9''))), [dig_event]) \<and>
   loop w_dig_down cfg0 pr0 st_cached =
     Return (\<lparr>registeredIP = ''1.2.3.4'', currentIP = [],
              err = Some (Lib (LibError ''exit status 9''))\<rparr>,
             [dig_event,
              LogPrintln ''Error: failed to get pulic IP:'' (Lib (LibError ''exit status 9''))])"
  by code_simp

text \<open>
  C3 (amended). In every tick whose resolution fails with an error \<open>e\<close>, the loop runs
  \<^verbatim>\<open>dig\<close>, logs \<open>e\<close> and does nothing else (no provider read, no provider write);
  \<open>registeredIP\<close> keeps its value, \<open>currentIP\<close> becomes the empty string and \<open>err\<close>
  becomes \<open>e\<close>.
\<close>

theorem resolve_failure_skips_tick:
  "\<forall>a e evs1. Resolve env publicip = Return ((a, Some e), evs1) \<longrightarrow>
     (\<exists>s'. loop env dyndns publicip s =
             Return (s', [ExecCommand ''dig'' (dig_args publicip),
                          LogPrintln ''Error: failed to get pulic IP:'' e]) \<and>
           registeredIP s' = registeredIP s \<and> currentIP s' = [] \<and> err s' = Some e)"
  by (cases rule: loop_cases [of env publicip dyndns s]) auto

theorem resolve_failure_skips_tick_witness:
  "Resolve w_dig_down pr0 =
     Return (([], Some (Lib (LibError ''exit status 9''))), [dig_event]) \<and>
   (\<exists>s'. loop w_dig_down cfg0 pr0 st_cached =
           Return (s', [ExecCommand ''dig'' (dig_args pr0),
                        LogPrintln ''Error: failed to get pulic IP:''
                          (Lib (LibError ''exit status 9''))]) \<and>
         registeredIP s' = ''1.2.3.4'' \<and> currentIP s' = [] \<and>
         err s' = Some (Lib (LibError ''exit status 9'')))"
  using resolve_failure_skips_tick [of w_dig_down pr0 cfg0 st_cached] eval_Resolve_worlds(2)
  by (simp add: st_cached_def)

text \<open>
  C4 (as stated, refuted). The claim says the three failure conditions of \<open>Resolve\<close> give
  three mutually distinguishable errors. An empty answer, an answer that is no address and
  an answer that is an IPv6 address give the same result, the error made by
  \<^verbatim>\<open>errors.New("no ipv4 valid address")\<close>.
\<close>

theorem Resolve_same_error_counterexample:
  "exec_Output w_empty ''dig'' (dig_args pr0) = Inr [] \<and>
   exec_Output w_garbage ''dig'' (dig_args pr0) = Inr ''not-an-ip\<newline>'' \<and>
   exec_Output w_ipv6 ''dig'' (dig_args pr0) = Inr ''2001:db8::1\<newline>'' \<and>
   Resolve w_empty pr0 =
     Return (([], Some (ErrorsNew ''no ipv4 valid address'')), [dig_event]) \<and>
   Resolve w_garbage pr0 =
     Return (([], Some (ErrorsNew ''no ipv4 valid address'')), [dig_event]) \<and>
   Resolve w_ipv6 pr0 =
     Return (([], Some (ErrorsNew ''no ipv4 valid address'')), [dig_event])"
  by code_simp

text \<open>
  C4 (amended). \<open>Resolve\<close> reports two distinguishable failures. A transport failure
  yields the library's error. An empty answer, and an answer whose text without its last
  byte \<open>ParseIP\<close> rejects or parses to an address \<open>To4\<close> rejects, both yield the one error
  \<^verbatim>\<open>no ipv4 valid address\<close>, which no library error equals. With every error the address
  returned is the empty string, never a cached or default address.
\<close>

theorem Resolve_failures:
  "(\<forall>e. exec_Output env ''dig'' (dig_args p) = Inl e \<longrightarrow>
      Resolve env p = Return (([], Some (Lib e)), [ExecCommand ''dig'' (dig_args p)])) \<and>
   (exec_Output env ''dig'' (dig_args p) = Inr [] \<longrightarrow>
      Resolve env p =
        Return (([], Some (ErrorsNew ''no ipv4 valid address'')),
                [ExecCommand ''dig'' (dig_args p)])) \<and>
   (\<forall>out. exec_Output env ''dig'' (dig_args p) = Inr out \<and> out \<noteq> [] \<and>
      (ParseIP (butlast out) = None \<or>
       (\<exists>ip. ParseIP (butlast out) = Some ip \<and> To4 ip = None)) \<longrightarrow>
      Resolve env p =
        Return (([], Some (ErrorsNew ''no ipv4 valid address'')),
                [ExecCommand ''dig'' (dig_args p)])) \<and>
   (\<forall>e. Lib e \<noteq> ErrorsNew ''no ipv4 valid address'') \<and>
   (\<forall>a e evs. Resolve env p = Return ((a, Some e), evs) \<longrightarrow> a = [])"
  using Resolve_transport [of env p] Resolve_empty [of env p] Resolve_invalid [of env p]
    Resolve_failed [of env p]
  by blast

theorem Resolve_failures_witness:
  "exec_Output w_dig_down ''dig'' (dig_args pr0) = Inl (LibError ''exit status 9'') \<and>
   Resolve w_dig_down pr0 =
     Return (([], Some (Lib (LibError ''exit status 9''))),
             [ExecCommand ''dig'' (dig_args pr0)]) \<and>
   exec_Output w_empty ''dig'' (dig_args pr0) = Inr [] \<and>
   Resolve w_empty pr0 =
     Return (([], Some (ErrorsNew ''no ipv4 valid address'')),
             [ExecCommand ''dig'' (dig_args pr0)]) \<and>
   exec_Output w_garbage ''dig'' (dig_args pr0) = Inr ''not-an-ip\<newline>'' \<and>
   ParseIP (butlast ''not-an-ip\<newline>'') = None \<and>
   Resolve w_garbage pr0 =
     Return (([], Some (ErrorsNew ''no ipv4 valid address'')),
             [ExecCommand ''dig'' (dig_args pr0)]) \<and>
   exec_Output w_ipv6 ''dig'' (dig_args pr0) = Inr ''2001:db8::1\<newline>'' \<and>
   (\<exists>ip. ParseIP (butlast ''2001:db8::1\<newline>'') = Some ip \<and> To4 ip = None) \<and>
   Resolve w_ipv6 pr0 =
     Return (([], Some (ErrorsNew ''no ipv4 valid address'')),
             [ExecCommand ''dig'' (dig_args pr0)])"
proof -
  have v6: "\<exists>ip. ParseIP (butlast ''2001:db8::1\<newline>'') = Some ip \<and> To4 ip = None"
    using eval_ParseIP_ipv6 by blast
  have ne: "''not-an-ip\<newline>'' \<noteq> []" "''2001:db8::1\<newline>'' \<noteq> []"
    by simp_all
  show ?thesis
    using Resolve_failures [of w_dig_down pr0] Resolve_failures [of w_empty pr0]
      Resolve_failures [of w_garbage pr0] Resolve_failures [of w_ipv6 pr0]
      eval_dig_outputs eval_ParseIP_garbage v6 ne
    by metis
qed

text \<open>
  C5 (as stated, refuted). The claim says a read counts as successful only for an HTTP
  success status. \<open>Get\<close> never looks at the status code: an answer with status 500 whose
  body decodes to a record with the value \<open>1.2.3.4\<close> is a successful read of \<open>1.2.3.4\<close>.
\<close>

theorem Get_status_ignored_counterexample:
  "Get w_get_500 cfg0 = ((''1.2.3.4'', None), [HttpRequest get_request]) \<and>
   http_Do w_get_500 get_request = Inr \<lparr>StatusCode = 500, Body = ''body''\<rparr> \<and>
   \<not> http_success 500"
  by code_simp

text \<open>
  C5 (amended). \<open>Get\<close> decides on the outcome of its HTTP call (\<open>req\<close> with method GET and
  no body) and on the decoded body, whatever the status code of the response. When the
  HTTP call fails, or the body of the response cannot be decoded, \<open>Get\<close> fails with the
  library's error. When the decoded record has no values (nil or an empty list) or its
  first value is empty, \<open>Get\<close> fails with \<^verbatim>\<open>Invalid Record Response\<close>. Otherwise \<open>Get\<close>
  succeeds and returns the first value.
\<close>

theorem Get_outcomes:
  "(\<forall>e. fst (req env l ''GET'' None) = Inl e \<longrightarrow> fst (Get env l) = ([], Some (Lib e))) \<and>
   (\<forall>res e. fst (req env l ''GET'' None) = Inr res \<and> json_Decode env (Body res) = Inl e \<longrightarrow>
      fst (Get env l) = ([], Some (Lib e))) \<and>
   (\<forall>res record. fst (req env l ''GET'' None) = Inr res \<and>
      json_Decode env (Body res) = Inr record \<and>
      (Values record = None \<or> Values record = Some [] \<or>
       (\<exists>vs. Values record = Some ([] # vs))) \<longrightarrow>
      fst (Get env l) = ([], Some (ErrorsNew ''Invalid Record Response''))) \<and>
   (\<forall>res record v vs. fst (req env l ''GET'' None) = Inr res \<and>
      json_Decode env (Body res) = Inr record \<and>
      Values record = Some (v # vs) \<and> v \<noteq> [] \<longrightarrow>
      fst (Get env l) = (v, None))"
  by (cases "req env l ''GET'' None")
     (auto simp: Get_def split: sum.splits option.splits list.splits)

theorem Get_outcomes_witness:
  "fst (req w_offline cfg0 ''GET'' None) = Inl (LibError ''no route to host'') \<and>
   Get w_offline cfg0 =
     (([], Some (Lib (LibError ''no route to host''))), [HttpRequest get_request]) \<and>
   fst (req w_strict cfg_bad ''GET'' None) = Inl (LibError ''invalid URL escape'') \<and>
   Get w_strict cfg_bad = (([], Some (Lib (LibError ''invalid URL escape''))), []) \<and>
   fst (req w_undecodable cfg0 ''GET'' None) = Inr \<lparr>StatusCode = 200, Body = ''body''\<rparr> \<and>
   json_Decode w_undecodable ''body'' = Inl (LibError ''unexpected end of JSON input'') \<and>
   Get w_undecodable cfg0 =
     (([], Some (Lib (LibError ''unexpected end of JSON input''))),
      [HttpRequest get_request]) \<and>
   fst (req w_no_values cfg0 ''GET'' None) = Inr \<lparr>StatusCode = 404, Body = ''body''\<rparr> \<and>
   json_Decode w_no_values ''body'' = Inr \<lparr>Kind = [], Name = [], TTL = 0, Values = None\<rparr> \<and>
   Get w_no_values cfg0 =
     (([], Some (ErrorsNew ''Invalid Record Response'')), [HttpRequest get_request]) \<and>
   fst (req w_get_500 cfg0 ''GET'' None) = Inr \<lparr>StatusCode = 500, Body = ''body''\<rparr> \<and>
   json_Decode w_get_500 ''body'' = Inr (a_record ''1.2.3.4'') \<and>
   Values (a_record ''1.2.3.4'') = Some [''1.2.3.4''] \<and>
   Get w_get_500 cfg0 = ((''1.2.3.4'', None), [HttpRequest get_request])"
  using Get_outcomes [of w_offline cfg0] Get_outcomes [of w_undecodable cfg0]
    Get_outcomes [of w_no_values cfg0] Get_outcomes [of w_get_500 cfg0]
    Get_outcomes [of w_strict cfg_bad]
    eval_Get_worlds eval_http_worlds eval_req_worlds eval_strict(1)
  by (simp add: a_record_def)

text \<open>
  C6. When the provider answers the write with a status other than "created" (201):
  \<open>Set\<close> fails with the error made from \<^verbatim>\<open>Unexpected Response Status Code [%d]\<close> and that
  status code; the write block, entered in any state, logs that error and leaves the cached
  registered address as it was when the write was made; and the tick ends with that error
  logged and the cache holding the address read from the provider in this tick (the one
  held when the write was made), not the address the write carried.
\<close>

theorem failed_write_keeps_cache:
  "(\<forall>ip rq res. snd (Set env dyndns ip) = [HttpRequest rq] \<and> http_Do env rq = Inr res \<and>
       StatusCode res \<noteq> StatusCreated \<longrightarrow>
       fst (Set env dyndns ip) =
         Some (Errorf ''Unexpected Response Status Code [%d]'' (StatusCode res))) \<and>
   (\<forall>s2 s3 evs rq res. loop_update env dyndns s2 = (s3, evs) \<and> rq \<in> set (write_calls evs) \<and>
       http_Do env rq = Inr res \<and> StatusCode res \<noteq> StatusCreated \<longrightarrow>
       registeredIP s3 = registeredIP s2 \<and>
       LogPrintln ''Error: updating DNS record:''
         (Errorf ''Unexpected Response Status Code [%d]'' (StatusCode res)) \<in> set evs) \<and>
   (\<exists>s' evs. loop env dyndns publicip s = Return (s', evs) \<and>
      (\<forall>rq res. rq \<in> set (write_calls evs) \<and> http_Do env rq = Inr res \<and>
         StatusCode res \<noteq> StatusCreated \<longrightarrow>
         LogPrintln ''Error: updating DNS record:''
           (Errorf ''Unexpected Response Status Code [%d]'' (StatusCode res)) \<in> set evs \<and>
         fst (Get env dyndns) = (registeredIP s', None) \<and>
         registeredIP s' \<noteq> currentIP s' \<and>
         err s' = Some (Errorf ''Unexpected Response Status Code [%d]'' (StatusCode res))))"
proof -
  have A: "\<forall>ip rq res. snd (Set env dyndns ip) = [HttpRequest rq] \<and> http_Do env rq = Inr res \<and>
       StatusCode res \<noteq> StatusCreated \<longrightarrow>
       fst (Set env dyndns ip) =
         Some (Errorf ''Unexpected Response Status Code [%d]'' (StatusCode res))"
    using Set_unexpected_status by blast
  have B: "\<forall>s2 s3 evs rq res. loop_update env dyndns s2 = (s3, evs) \<and>
       rq \<in> set (write_calls evs) \<and> http_Do env rq = Inr res \<and>
       StatusCode res \<noteq> StatusCreated \<longrightarrow>
       registeredIP s3 = registeredIP s2 \<and>
       LogPrintln ''Error: updating DNS record:''
         (Errorf ''Unexpected Response Status Code [%d]'' (StatusCode res)) \<in> set evs"
    using loop_update_failed_write [of env dyndns] by blast
  have C: "\<exists>s' evs. loop env dyndns publicip s = Return (s', evs) \<and>
     (\<forall>rq res. rq \<in> set (write_calls evs) \<and> http_Do env rq = Inr res \<and>
         StatusCode res \<noteq> StatusCreated \<longrightarrow>
         LogPrintln ''Error: updating DNS record:''
           (Errorf ''Unexpected Response Status Code [%d]'' (StatusCode res)) \<in> set evs \<and>
         fst (Get env dyndns) = (registeredIP s', None) \<and>
         registeredIP s' \<noteq> currentIP s' \<and>
         err s' = Some (Errorf ''Unexpected Response Status Code [%d]'' (StatusCode res)))"
  proof (cases rule: loop_cases [of env publicip dyndns s])
    case (set_failed a r rq e evs3)
    have W: "write_calls ([ExecCommand ''dig'' (dig_args publicip), HttpRequest rq] @ evs3 @
                 [LogPrintln ''Error: updating DNS record:'' e]) = write_calls evs3"
      using set_failed(5) by (simp add: write_calls_append)
    have "e = Errorf ''Unexpected Response Status Code [%d]'' (StatusCode res)"
      if "rq' \<in> set (write_calls evs3)" "http_Do env rq' = Inr res"
        "StatusCode res \<noteq> StatusCreated"
      for rq' res
    proof -
      from that(1) Set_events [of env dyndns a] set_failed(8)
      have "snd (Set env dyndns a) = [HttpRequest rq']"
        by (auto split: if_splits)
      with Set_unexpected_status [of env dyndns a rq' res] that set_failed(8)
      show ?thesis by simp
    qed
    with set_failed W show ?thesis
      by auto
  next
    case (set_ok a r rq evs3)
    have W: "write_calls ([ExecCommand ''dig'' (dig_args publicip), HttpRequest rq] @ evs3 @
                 [LogPrint ''Info: updated Gandi records with IP:'' a]) = write_calls evs3"
      using set_ok(5) by (simp add: write_calls_append)
    have "False"
      if "rq' \<in> set (write_calls evs3)" "http_Do env rq' = Inr res"
        "StatusCode res \<noteq> StatusCreated"
      for rq' res
    proof -
      from Set_ok_events [of env dyndns a] set_ok(8)
      obtain rq2 res2 where "evs3 = [HttpRequest rq2]" "req_method rq2 = ''PUT''"
        "http_Do env rq2 = Inr res2" "StatusCode res2 = StatusCreated"
        by auto
      with that show False by auto
    qed
    with set_ok W show ?thesis
      by auto
  qed (auto simp: write_calls_append)
  from A B C show ?thesis by blast
qed

theorem failed_write_keeps_cache_witness:
  "snd (Set w_put_500 cfg0 ''1.2.3.5'') =
     [HttpRequest (put_request ''ttl 300 values 1.2.3.5'')] \<and>
   http_Do w_put_500 (put_request ''ttl 300 values 1.2.3.5'') =
     Inr \<lparr>StatusCode = 500, Body = ''body''\<rparr> \<and>
   500 \<noteq> StatusCreated \<and>
   fst (Set w_put_500 cfg0 ''1.2.3.5'') =
     Some (Errorf ''Unexpected Response Status Code [%d]'' 500) \<and>
   loop_update w_put_500 cfg0
       \<lparr>registeredIP = ''1.2.3.4'', currentIP = ''1.2.3.5'', err = None\<rparr> =
     (\<lparr>registeredIP = ''1.2.3.4'', currentIP = ''1.2.3.5'',
        err = Some (Errorf ''Unexpected Response Status Code [%d]'' 500)\<rparr>,
      [HttpRequest (put_request ''ttl 300 values 1.2.3.5''),
       LogPrintln ''Error: updating DNS record:''
         (Errorf ''Unexpected Response Status Code [%d]'' 500)]) \<and>
   (\<exists>s' evs. loop w_put_500 cfg0 pr0 st_init = Return (s', evs) \<and>
      put_request ''ttl 300 values 1.2.3.5'' \<in> set (write_calls evs) \<and>
      LogPrintln ''Error: updating DNS record:''
        (Errorf ''Unexpected Response Status Code [%d]'' 500) \<in> set evs \<and>
      fst (Get w_put_500 cfg0) = (''1.2.3.4'', None) \<and>
      registeredIP s' = ''1.2.3.4'' \<and> currentIP s' = ''1.2.3.5'' \<and>
      err s' = Some (Errorf ''Unexpected Response Status Code [%d]'' 500))"
  using failed_write_keeps_cache [of w_put_500 cfg0 pr0 st_init]
    eval_loop_worlds(3) eval_Set_put_500 eval_http_worlds(8) eval_Get_worlds(2)
    eval_loop_update_put_500
  by (simp add: StatusCreated_def put_request_def dig_event_def)

text \<open>
  C7 (the code does otherwise). The claim: parsing succeeds for every valid IPv4 literal
  and fails for every IPv6 literal. \<open>Resolve\<close> accepts what \<open>ParseIP\<close> parses and \<open>To4\<close>
  does not reject, and returns the text it was given: the IPv6 literal
  \<open>::ffff:1.2.3.4\<close> parses to the 16-byte form of \<open>1.2.3.4\<close>, passes \<open>To4\<close>, and is
  returned as the public address; the tick then writes \<open>::ffff:1.2.3.4\<close> into the A
  record. (The other half of the claim holds: by \<open>Resolve_accepts_dotted_quad\<close> every
  dotted quad is accepted and returned as it is.)
\<close>

theorem mapped_ipv6_literal_accepted:
  "ParseIP ''::ffff:1.2.3.4'' = Some (IPv4 1 2 3 4) \<and>
   To4 (IPv4 1 2 3 4) = Some [1, 2, 3, 4] \<and>
   Resolve w_mapped pr0 = Return ((''::ffff:1.2.3.4'', None), [dig_event]) \<and>
   loop w_mapped cfg0 pr0 st_init =
     Return (\<lparr>registeredIP = ''1.2.3.4'', currentIP = ''::ffff:1.2.3.4'', err = None\<rparr>,
             [dig_event, HttpRequest get_request,
              HttpRequest (put_request ''ttl 300 values ::ffff:1.2.3.4''),
              LogPrint ''Info: updated Gandi records with IP:'' ''::ffff:1.2.3.4''])"
  by code_simp

text \<open>
  C8. In every tick in which the cached registered address equals the freshly resolved
  address, the loop sends no write to the provider: both when the two are equal as the
  tick ends (the values the code compares, when it compares) and when the address cached
  at the start of the tick is the one \<open>Resolve\<close> returns.
\<close>

theorem no_write_when_equal:
  "\<exists>s' evs. loop env dyndns publicip s = Return (s', evs) \<and>
     (registeredIP s' = currentIP s' \<longrightarrow> write_calls evs = []) \<and>
     (\<forall>a evs1. Resolve env publicip = Return ((a, None), evs1) \<and> registeredIP s = a \<longrightarrow>
        write_calls evs = [])"
  by (cases rule: loop_cases [of env publicip dyndns s]) auto

theorem no_write_when_equal_witness:
  "loop w_same cfg0 pr0 st_init = Return (st_cached, [dig_event, HttpRequest get_request]) \<and>
   registeredIP st_cached = currentIP st_cached \<and>
   write_calls [dig_event, HttpRequest get_request] = [] \<and>
   Resolve w_same pr0 = Return ((''1.2.3.4'', None), [dig_event]) \<and>
   registeredIP st_cached = ''1.2.3.4'' \<and>
   loop w_same cfg0 pr0 st_cached = Return (st_cached, [dig_event]) \<and>
   write_calls [dig_event] = []"
  using no_write_when_equal [of w_same cfg0 pr0 st_init]
    no_write_when_equal [of w_same cfg0 pr0 st_cached]
    eval_loop_worlds(1,2) eval_Resolve_worlds(1)
  by (simp add: st_cached_def)

text \<open>
  C9. For every address \<open>ip\<close>, \<open>Set\<close> serializes the record with TTL 300 and the value list
  \<open>[ip]\<close> (and nothing else set). Whatever the encoder makes of that record is the body
  \<open>Set\<close> hands to \<open>req\<close> with method PUT: what \<open>Set\<close> sends is what that call sends, every
  request \<open>Set\<close> sends is a PUT with that body, and where \<^verbatim>\<open>http.NewRequest\<close> accepts the
  URL \<open>Set\<close> sends exactly one. When the encoder fails on the record, \<open>Set\<close> sends nothing
  and returns the encoder's error.
\<close>

theorem Set_payload:
  "(\<forall>body. json_Encode env \<lparr>Kind = [], Name = [], TTL = 300, Values = Some [ip]\<rparr> = Inr body \<longrightarrow>
      snd (Set env l ip) = snd (req env l ''PUT'' (Some body)) \<and>
      (\<forall>rq. HttpRequest rq \<in> set (snd (Set env l ip)) \<longrightarrow>
         req_method rq = ''PUT'' \<and> req_body rq = Some body) \<and>
      (http_NewRequest env ''PUT''
         (baseURL @ ''/'' @ Zone l @ ''/records/'' @ Record l @ ''/A'') = None \<longrightarrow>
       (\<exists>rq. snd (Set env l ip) = [HttpRequest rq] \<and> req_method rq = ''PUT'' \<and>
             req_body rq = Some body))) \<and>
   (\<forall>e. json_Encode env \<lparr>Kind = [], Name = [], TTL = 300, Values = Some [ip]\<rparr> = Inl e \<longrightarrow>
      Set env l ip = (Some (Lib e), []))"
  by (auto simp: Set_def req_def Let_def split: sum.splits option.splits)

theorem Set_payload_witness:
  "json_Encode w_moved \<lparr>Kind = [], Name = [], TTL = 300, Values = Some [''1.2.3.5'']\<rparr> =
     Inr ''ttl 300 values 1.2.3.5'' \<and>
   http_NewRequest w_moved ''PUT''
     (baseURL @ ''/'' @ Zone cfg0 @ ''/records/'' @ Record cfg0 @ ''/A'') = None \<and>
   snd (Set w_moved cfg0 ''1.2.3.5'') = [HttpRequest (put_request ''ttl 300 values 1.2.3.5'')] \<and>
   snd (req w_moved cfg0 ''PUT'' (Some ''ttl 300 values 1.2.3.5'')) =
     [HttpRequest (put_request ''ttl 300 values 1.2.3.5'')] \<and>
   HttpRequest (put_request ''ttl 300 values 1.2.3.5'') \<in> set (snd (Set w_moved cfg0 ''1.2.3.5'')) \<and>
   req_method (put_request ''ttl 300 values 1.2.3.5'') = ''PUT'' \<and>
   req_body (put_request ''ttl 300 values 1.2.3.5'') = Some ''ttl 300 values 1.2.3.5'' \<and>
   json_Encode w_strict \<lparr>Kind = [], Name = [], TTL = 300, Values = Some [''1.2.3.5'']\<rparr> =
     Inr ''ttl 300 values 1.2.3.5'' \<and>
   snd (Set w_strict cfg_bad ''1.2.3.5'') = [] \<and>
   snd (req w_strict cfg_bad ''PUT'' (Some ''ttl 300 values 1.2.3.5'')) = [] \<and>
   json_Encode w_unencodable \<lparr>Kind = [], Name = [], TTL = 300, Values = Some [''1.2.3.5'']\<rparr> =
     Inl (LibError ''json: unsupported value'') \<and>
   Set w_unencodable cfg0 ''1.2.3.5'' = (Some (Lib (LibError ''json: unsupported value'')), [])"
  using Set_payload [of w_moved "''1.2.3.5''" cfg0]
    Set_payload [of w_unencodable "''1.2.3.5''" cfg0]
    Set_payload [of w_strict "''1.2.3.5''" cfg_bad]
    eval_Set_moved eval_strict
  by (simp add: put_request_def)

text \<open>
  C10. \<open>Resolve\<close> never panics on its slice of the probe output. The slice
  \<^verbatim>\<open>output[0 : len(output)-1]\<close> of a non-empty output is in bounds and is the output without
  its last byte, and an empty output is answered with an error before the slice is taken;
  so \<open>Resolve\<close> returns in every world. An address it returns is the output stripped of
  exactly one trailing byte; and a one-byte output, stripped to the empty string, is
  reported with the error \<^verbatim>\<open>no ipv4 valid address\<close>.
\<close>

theorem Resolve_slice_in_bounds:
  "(\<forall>output. output \<noteq> [] \<longrightarrow>
      go_slice output 0 (int (length output) - 1) = Return (butlast output)) \<and>
   (exec_Output env ''dig'' (dig_args p) = Inr [] \<longrightarrow>
      Resolve env p =
        Return (([], Some (ErrorsNew ''no ipv4 valid address'')),
                [ExecCommand ''dig'' (dig_args p)])) \<and>
   (\<exists>a e evs. Resolve env p = Return ((a, e), evs)) \<and>
   (\<forall>a evs. Resolve env p = Return ((a, None), evs) \<longrightarrow>
      (\<exists>c. exec_Output env ''dig'' (dig_args p) = Inr (a @ [c]))) \<and>
   (\<forall>c. exec_Output env ''dig'' (dig_args p) = Inr [c] \<longrightarrow>
      Resolve env p =
        Return (([], Some (ErrorsNew ''no ipv4 valid address'')),
                [ExecCommand ''dig'' (dig_args p)]))"
  using Resolve_returns [of env p] Resolve_ok [of env p] Resolve_one_byte [of env p]
    Resolve_empty [of env p]
  by (simp add: go_slice_strip) blast

theorem Resolve_slice_in_bounds_witness:
  "go_slice ''1.2.3.4\<newline>'' 0 (int (length ''1.2.3.4\<newline>'') - 1) = Return ''1.2.3.4'' \<and>
   exec_Output w_empty ''dig'' (dig_args pr0) = Inr [] \<and>
   Resolve w_empty pr0 =
     Return (([], Some (ErrorsNew ''no ipv4 valid address'')),
             [ExecCommand ''dig'' (dig_args pr0)]) \<and>
   Resolve w_same pr0 = Return ((''1.2.3.4'', None), [dig_event]) \<and>
   (\<exists>c. exec_Output w_same ''dig'' (dig_args pr0) = Inr (''1.2.3.4'' @ [c])) \<and>
   exec_Output w_newline ''dig'' (dig_args pr0) = Inr ''\<newline>'' \<and>
   Resolve w_newline pr0 =
     Return (([], Some (ErrorsNew ''no ipv4 valid address'')),
             [ExecCommand ''dig'' (dig_args pr0)])"
  using Resolve_slice_in_bounds [of w_same pr0] Resolve_slice_in_bounds [of w_newline pr0]
    Resolve_slice_in_bounds [of w_empty pr0]
    eval_Resolve_worlds(1) eval_dig_outputs(3,4)
  by (simp add: go_slice_def)

end
